theory Spec2Isabelle
  imports Complex_Main "HOL-Library.Word"
begin

section \<open>JavaScript values and errors\<close>

text \<open>
  The wallet of \<^verbatim>\<open>src/lib/wallet.js\<close> keeps its amounts in fields that hold either a
  decimal string or a number, and tests some of them for truthiness. \<open>jsval\<close> is the
  part of the JavaScript value space those fields range over: \<open>undefined\<close>, \<open>null\<close>,
  a number with an integer value, and a string. Counters (\<open>txsCount\<close>, \<open>minConf\<close>,
  \<open>confirmations\<close>) are numbers holding integers far below \<open>2^53\<close> and are modelled
  by \<open>int\<close>, a missing one by \<open>None\<close>.
\<close>

datatype jsval = JUndefined | JNull | JNum int | JStr string

text \<open>
  Everything the code throws, and every value a remote call rejects with, is an \<open>error\<close>.
  \<open>AssertionError\<close> is what \<^verbatim>\<open>assert\<close> throws, \<open>Error\<close> what \<^verbatim>\<open>throw new Error(msg)\<close>
  throws, \<open>TypeError\<close> what the runtime throws, \<open>NotANumber\<close> what big.js throws on
  text that is not a decimal numeral, \<open>BNInvalid\<close> stands for bn.js given text that is
  not an integer numeral, \<open>LibraryError\<close> is what a cryptographic library throws (named
  by the operation that throws), and \<open>RemoteFailure\<close> is a rejection of the remote API.
\<close>

datatype error =
    AssertionError string
  | Error string
  | TypeError string
  | NotANumber
  | BNInvalid
  | LibraryError string
  | RemoteFailure string

abbreviation InvalidArgument :: error where
  "InvalidArgument \<equiv> AssertionError ''seed cannot be empty''"

abbreviation InsufficientFunds :: error where
  "InsufficientFunds \<equiv> Error ''Insufficient funds''"

abbreviation InvalidPrivateKey :: error where
  "InvalidPrivateKey \<equiv> Error ''Invalid private key''"

text \<open>Sequencing of steps that may throw: the first exception ends the computation.\<close>

fun bindE :: "error + 'a \<Rightarrow> ('a \<Rightarrow> error + 'b) \<Rightarrow> error + 'b" where
  "bindE (Inl e) f = Inl e"
| "bindE (Inr x) f = f x"

text \<open>JavaScript truthiness, as tested by \<^verbatim>\<open>x ? a : b\<close>, \<^verbatim>\<open>x || d\<close> and \<^verbatim>\<open>assert(x)\<close>.\<close>

fun truthy :: "jsval \<Rightarrow> bool" where
  "truthy JUndefined = False"
| "truthy JNull = False"
| "truthy (JNum n) = (n \<noteq> 0)"
| "truthy (JStr s) = (s \<noteq> [])"

section \<open>Decimal numerals\<close>

definition is_digit :: "char \<Rightarrow> bool" where
  "is_digit c = (48 \<le> (of_char c :: nat) \<and> (of_char c :: nat) \<le> 57)"

definition digit_val :: "char \<Rightarrow> nat" where
  "digit_val c = of_char c - 48"

definition digit_char :: "nat \<Rightarrow> char" where
  "digit_char d = char_of (48 + d)"

definition all_digits :: "string \<Rightarrow> bool" where
  "all_digits cs = list_all is_digit cs"

definition digits_val :: "string \<Rightarrow> nat" where
  "digits_val cs = foldl (\<lambda>a c. 10 * a + digit_val c) 0 cs"

text \<open>The decimal numeral of a natural number, without leading zeros.\<close>

fun digits :: "nat \<Rightarrow> string" where
  "digits n = (if n < 10 then [digit_char n] else digits (n div 10) @ [digit_char (n mod 10)])"

declare digits.simps [simp del]

text \<open>\<^verbatim>\<open>String(n)\<close> for an integer-valued number \<open>n\<close>: its decimal numeral (numbers from
  \<open>10^21\<close> on, which JavaScript prints with an exponent, are outside the model).\<close>

definition int_str :: "int \<Rightarrow> string" where
  "int_str n = (if n < 0 then CHR ''-'' # digits (nat (- n)) else digits (nat n))"

fun ToString :: "jsval \<Rightarrow> string" where
  "ToString JUndefined = ''undefined''"
| "ToString JNull = ''null''"
| "ToString (JNum n) = int_str n"
| "ToString (JStr s) = s"

text \<open>\<^verbatim>\<open>s + v\<close> with a string on the left: concatenation with \<^verbatim>\<open>String(v)\<close>.\<close>

definition str_concat :: "string \<Rightarrow> jsval \<Rightarrow> jsval" where
  "str_concat s v = JStr (s @ ToString v)"

section \<open>big.js: exact decimals\<close>

text \<open>
  big.js is a dependency of the wallet, not part of it. A \<^verbatim>\<open>Big\<close> is a finite decimal;
  \<^verbatim>\<open>plus\<close>, \<^verbatim>\<open>minus\<close>, \<^verbatim>\<open>times\<close>, \<^verbatim>\<open>abs\<close> and \<^verbatim>\<open>lt\<close> are exact on them. \<open>Dec m s\<close>
  stands for \<open>m / 10^s\<close>; like big.js, which stores a coefficient without trailing
  zeros, every operation returns the representation with the least scale (\<open>norm\<close>).
  \<open>val\<close> is the rational number a decimal stands for. big.js distinguishes \<open>-0\<close> from
  \<open>0\<close> internally, but compares them equal and prints both as \<open>0\<close>; here they are the
  same decimal.
\<close>

datatype big = Dec int nat

fun val :: "big \<Rightarrow> rat" where
  "val (Dec m s) = of_int m / 10 ^ s"

fun norm :: "int \<Rightarrow> nat \<Rightarrow> big" where
  "norm m 0 = Dec m 0"
| "norm m (Suc s) = (if m mod 10 = 0 then norm (m div 10) s else Dec m (Suc s))"

fun normal :: "big \<Rightarrow> bool" where
  "normal (Dec m s) = (s = 0 \<or> m mod 10 \<noteq> 0)"

fun Big_plus :: "big \<Rightarrow> big \<Rightarrow> big" where
  "Big_plus (Dec m s) (Dec n t) =
     norm (m * 10 ^ (max s t - s) + n * 10 ^ (max s t - t)) (max s t)"

fun Big_neg :: "big \<Rightarrow> big" where
  "Big_neg (Dec m s) = Dec (- m) s"

definition Big_minus :: "big \<Rightarrow> big \<Rightarrow> big" where
  "Big_minus a b = Big_plus a (Big_neg b)"

fun Big_times :: "big \<Rightarrow> big \<Rightarrow> big" where
  "Big_times (Dec m s) (Dec n t) = norm (m * n) (s + t)"

fun Big_abs :: "big \<Rightarrow> big" where
  "Big_abs (Dec m s) = Dec \<bar>m\<bar> s"

fun Big_lt :: "big \<Rightarrow> big \<Rightarrow> bool" where
  "Big_lt (Dec m s) (Dec n t) = (m * 10 ^ (max s t - s) < n * 10 ^ (max s t - t))"

text \<open>
  The numerals big.js accepts are those of its regular expression
  \<^verbatim>\<open>/^-?(\d+(\.\d*)?|\.\d+)(e[+-]?\d+)?$/i\<close>. \<open>split_at P s\<close> cuts \<open>s\<close> at its first
  character satisfying \<open>P\<close>: the part before it, and the part after it if there is one.
\<close>

definition split_at :: "(char \<Rightarrow> bool) \<Rightarrow> string \<Rightarrow> string \<times> string option" where
  "split_at P s =
     (takeWhile (\<lambda>c. \<not> P c) s,
      case dropWhile (\<lambda>c. \<not> P c) s of [] \<Rightarrow> None | _ # r \<Rightarrow> Some r)"

definition is_e :: "char \<Rightarrow> bool" where
  "is_e c = (c = CHR ''e'' \<or> c = CHR ''E'')"

definition is_dot :: "char \<Rightarrow> bool" where
  "is_dot c = (c = CHR ''.'')"

text \<open>The exponent part \<^verbatim>\<open>[+-]?\d+\<close>.\<close>

definition parse_exp :: "string \<Rightarrow> int option" where
  "parse_exp e =
     (case e of
        [] \<Rightarrow> None
      | c # r \<Rightarrow>
          if c = CHR ''-'' then (if r \<noteq> [] \<and> all_digits r then Some (- int (digits_val r)) else None)
          else if c = CHR ''+'' then (if r \<noteq> [] \<and> all_digits r then Some (int (digits_val r)) else None)
          else (if all_digits e then Some (int (digits_val e)) else None))"

definition Big_parse_unsigned :: "string \<Rightarrow> big option" where
  "Big_parse_unsigned body =
     (let (mstr, estr) = split_at is_e body;
          (ip, fp) = split_at is_dot mstr;
          fr = (case fp of None \<Rightarrow> [] | Some f \<Rightarrow> f);
          ok = (all_digits ip \<and> all_digits fr \<and>
                (case fp of None \<Rightarrow> ip \<noteq> [] | Some f \<Rightarrow> ip \<noteq> [] \<or> f \<noteq> []));
          ex = (case estr of None \<Rightarrow> Some 0 | Some e \<Rightarrow> parse_exp e)
      in case ex of
           None \<Rightarrow> None
         | Some x \<Rightarrow>
             if ok
             then Some (norm (int (digits_val (ip @ fr)) * 10 ^ nat x) (length fr + nat (- x)))
             else None)"

definition Big_parse :: "string \<Rightarrow> big option" where
  "Big_parse s =
     (if s \<noteq> [] \<and> hd s = CHR ''-''
      then map_option Big_neg (Big_parse_unsigned (tl s))
      else Big_parse_unsigned s)"

text \<open>\<^verbatim>\<open>Big(v)\<close>, and the conversion every method of a \<^verbatim>\<open>Big\<close> applies to its argument.\<close>

definition Big :: "jsval \<Rightarrow> error + big" where
  "Big v = (case Big_parse (ToString v) of None \<Rightarrow> Inl NotANumber | Some b \<Rightarrow> Inr b)"

text \<open>
  \<^verbatim>\<open>x.toFixed()\<close>: normal notation, never an exponent, no trailing zeros, a zero before
  the point when the value is below one.
\<close>

fun toFixed :: "big \<Rightarrow> string" where
  "toFixed (Dec m s) =
     (let ds = digits (nat \<bar>m\<bar>);
          padded = replicate (Suc s - length ds) CHR ''0'' @ ds;
          k = length padded - s;
          body = (if s = 0 then padded else take k padded @ CHR ''.'' # drop k padded)
      in if m < 0 then CHR ''-'' # body else body)"


declare toFixed.simps [simp del]

section \<open>Bytes and hexadecimal text\<close>

type_synonym byte = "8 word"

definition hex_digit :: "nat \<Rightarrow> char" where
  "hex_digit n = (if n < 10 then char_of (48 + n) else char_of (87 + n))"

definition hex_val :: "char \<Rightarrow> nat option" where
  "hex_val c =
     (let n = (of_char c :: nat)
      in if 48 \<le> n \<and> n \<le> 57 then Some (n - 48)
         else if 97 \<le> n \<and> n \<le> 102 then Some (n - 87)
         else if 65 \<le> n \<and> n \<le> 70 then Some (n - 55)
         else None)"

text \<open>\<^verbatim>\<open>buffer.toString('hex')\<close>: two lower-case digits for each byte.\<close>

fun toHex :: "byte list \<Rightarrow> string" where
  "toHex [] = []"
| "toHex (b # bs) = hex_digit (unat b div 16) # hex_digit (unat b mod 16) # toHex bs"

text \<open>
  \<^verbatim>\<open>new Buffer(str, 'hex')\<close>. Text that is not a sequence of pairs of hexadecimal digits
  is rejected (\<open>None\<close>); implementations of \<^verbatim>\<open>Buffer\<close> that cut the text at the first
  bad pair instead are not modelled.
\<close>

fun fromHex :: "string \<Rightarrow> byte list option" where
  "fromHex [] = Some []"
| "fromHex [c] = None"
| "fromHex (c # d # r) =
     (case (hex_val c, hex_val d) of
        (Some h, Some l) \<Rightarrow> map_option (\<lambda>bs. of_nat (16 * h + l) # bs) (fromHex r)
      | _ \<Rightarrow> None)"

section \<open>The collaborators: cryptography and the remote API\<close>

text \<open>
  A raw transaction as the remote API returns it, and the same object after
  normalisation (which writes \<open>tx_fee\<close> and may rewrite \<open>tx_value\<close>). Fields of the
  object that the wallet never reads are left out. \<open>tx_confirmations = None\<close> is a
  transaction without that property.
\<close>

record tx =
  tx_from :: jsval
  tx_to :: jsval
  tx_value :: jsval
  tx_gas :: jsval
  tx_gasPrice :: jsval
  tx_gasUsed :: jsval
  tx_confirmations :: "int option"
  tx_fee :: jsval

text \<open>The fields handed to \<^verbatim>\<open>new EthereumTx({...})\<close>; a signed transaction is the fields
  with the signature computed from them.\<close>

record EthereumTx =
  e_nonce :: int
  e_gasPrice :: int
  e_gasLimit :: int
  e_to :: jsval
  e_value :: int
  e_chainId :: int

type_synonym signed_tx = "EthereumTx \<times> byte list"

text \<open>
  The cryptographic libraries (ethereumjs-wallet, ethereumjs-util, ethereumjs-tx, bn.js)
  are opaque capabilities. Every function of the wallet that uses them takes them as
  the parameter \<open>L\<close>:
  \<^item> \<open>fromMasterSeed\<close>: the private key that \<^verbatim>\<open>hdkey.fromMasterSeed(seed).getWallet()\<close>
    derives, or the exception it throws (on a seed that is not text or bytes);
  \<^item> \<open>privateToAddress\<close>: the address of a private key;
  \<^item> \<open>isValidPrivate\<close>: the validity test of a private key;
  \<^item> \<open>validTx\<close>: whether \<^verbatim>\<open>new EthereumTx({...})\<close> accepts the fields (it throws on a
    field of the wrong length and on text that is not hexadecimal);
  \<^item> \<open>ecsign\<close>: the signature of a transaction under a valid private key;
  \<^item> \<open>rlp_encode\<close>: the wire encoding of a signed transaction;
  \<^item> \<open>bn_other\<close>: what \<^verbatim>\<open>new BN(v)\<close> makes of an argument that is neither a number
    below \<open>2^53\<close> nor text holding an integer numeral, \<open>None\<close> when it fails an
    assertion (this depends on the version of bn.js).
\<close>

record lib =
  fromMasterSeed :: "jsval \<Rightarrow> error + byte list"
  privateToAddress :: "byte list \<Rightarrow> byte list"
  isValidPrivate :: "byte list \<Rightarrow> bool"
  validTx :: "EthereumTx \<Rightarrow> bool"
  ecsign :: "byte list \<Rightarrow> EthereumTx \<Rightarrow> byte list"
  rlp_encode :: "signed_tx \<Rightarrow> byte list"
  bn_other :: "jsval \<Rightarrow> int option"

text \<open>
  \<^verbatim>\<open>new BN(v)\<close> reads an integer: a number below \<open>2^53\<close> in absolute value, or a decimal
  integer numeral with an optional minus sign; \<^verbatim>\<open>undefined\<close> and the empty string give
  \<open>0\<close>. Everything else is left to \<open>bn_other\<close>.
\<close>

definition BN :: "lib \<Rightarrow> jsval \<Rightarrow> error + int" where
  "BN L v =
     (let other = (case bn_other L v of None \<Rightarrow> Inl BNInvalid | Some n \<Rightarrow> Inr n)
      in case v of
           JUndefined \<Rightarrow> Inr 0
         | JNull \<Rightarrow> other
         | JNum n \<Rightarrow> if \<bar>n\<bar> < 2 ^ 53 then Inr n else other
         | JStr s \<Rightarrow>
             if s = [] then Inr 0
             else let neg = (hd s = CHR ''-'');
                      body = (if neg then tl s else s)
                  in if body \<noteq> [] \<and> all_digits body
                     then Inr ((if neg then - 1 else 1) * int (digits_val body))
                     else other)"

text \<open>The \<^verbatim>\<open>etherWallet\<close> object holds one private key; its methods:\<close>

type_synonym etherWallet = "byte list"

definition getPrivateKeyString :: "etherWallet \<Rightarrow> string" where
  "getPrivateKeyString ew = ''0x'' @ toHex ew"

definition getAddressString :: "lib \<Rightarrow> etherWallet \<Rightarrow> string" where
  "getAddressString L ew = ''0x'' @ toHex (privateToAddress L ew)"

definition fromPrivateKey :: "byte list \<Rightarrow> etherWallet" where
  "fromPrivateKey privateKey = privateKey"

text \<open>
  \<^verbatim>\<open>new EthereumTx(data)\<close> throws when the library does not accept the fields, and
  \<^verbatim>\<open>tx.sign(privateKey)\<close> throws when the key is not a valid private key.
\<close>

definition new_EthereumTx :: "lib \<Rightarrow> EthereumTx \<Rightarrow> error + EthereumTx" where
  "new_EthereumTx L data =
     (if validTx L data then Inr data else Inl (LibraryError ''EthereumTx''))"

definition sign :: "lib \<Rightarrow> EthereumTx \<Rightarrow> byte list \<Rightarrow> error + signed_tx" where
  "sign L tx privateKey =
     (if isValidPrivate L privateKey then Inr (tx, ecsign L privateKey tx)
      else Inl (LibraryError ''sign''))"

text \<open>
  The remote API (\<^verbatim>\<open>./api\<close>) answers each request with a value or rejects it with an
  error. \<open>R\<close> gives the answer to every request the wallet can make.
\<close>

record balance_result =
  b_balance :: jsval
  b_confirmedBalance :: jsval

record remote =
  addresses_balance :: "string \<Rightarrow> int \<Rightarrow> error + balance_result"
  addresses_txsCount :: "string \<Rightarrow> error + int"
  common_gasPrice :: "error + jsval"
  addresses_txs :: "string \<Rightarrow> error + tx list"
  transactions_get :: "string \<Rightarrow> string \<Rightarrow> error + tx"
  transactions_propagate :: "string \<Rightarrow> error + string"

datatype api_call =
    BalanceCall string int
  | TxsCountCall string
  | GasPriceCall
  | TxsCall string

text \<open>
  \<^verbatim>\<open>Promise.all\<close> of four requests: fulfilled with the four values when all are
  fulfilled, and otherwise rejected with the error of the request that is rejected
  first. Which one is first is decided by the network; \<open>sched\<close> lists the requests
  (by position) in the order in which they settle, and requests it does not list settle
  after those, in the order of their positions.
\<close>

fun first_rejection :: "nat list \<Rightarrow> error option list \<Rightarrow> error option" where
  "first_rejection [] es = None"
| "first_rejection (i # sched) es =
     (if i < length es
      then (case es ! i of Some e \<Rightarrow> Some e | None \<Rightarrow> first_rejection sched es)
      else first_rejection sched es)"

fun rejection :: "error + 'a \<Rightarrow> error option" where
  "rejection (Inl e) = Some e"
| "rejection (Inr x) = None"

definition Promise_all :: "nat list \<Rightarrow> error + 'a \<Rightarrow> error + 'b \<Rightarrow> error + 'c \<Rightarrow> error + 'd
    \<Rightarrow> error + ('a \<times> 'b \<times> 'c \<times> 'd)" where
  "Promise_all sched r0 r1 r2 r3 =
     (case first_rejection (sched @ [0, 1, 2, 3])
             [rejection r0, rejection r1, rejection r2, rejection r3] of
        Some e \<Rightarrow> Inl e
      | None \<Rightarrow>
          bindE r0 (\<lambda>a. bindE r1 (\<lambda>b. bindE r2 (\<lambda>c. bindE r3 (\<lambda>d. Inr (a, b, c, d))))))"

section \<open>The wallet\<close>

record wallet =
  networkName :: jsval
  balance :: jsval
  confirmedBalance :: jsval
  historyTxs :: "tx list"
  txsCount :: int
  etherWallet :: etherWallet
  addressString :: string
  gasPrice :: jsval
  gasLimit :: jsval
  minConf :: int

subsection \<open>History normalisation: \<^verbatim>\<open>transformTxs\<close>\<close>

text \<open>
  \<^verbatim>\<open>tx.fee = tx.gasUsed ? (Big(tx.gasUsed).times(tx.gasPrice).toFixed()) : -1;\<close>
  \<^verbatim>\<open>if (tx.from === address) { tx.value = '-' + tx.value; }\<close>
\<close>

definition transformTx :: "string \<Rightarrow> tx \<Rightarrow> error + tx" where
  "transformTx address tx =
     bindE (if truthy (tx_gasUsed tx)
            then bindE (Big (tx_gasUsed tx)) (\<lambda>g.
                 bindE (Big (tx_gasPrice tx)) (\<lambda>p.
                 Inr (JStr (toFixed (Big_times g p)))))
            else Inr (JNum (- 1)))
       (\<lambda>fee.
          let tx1 = tx\<lparr>tx_fee := fee\<rparr>
          in Inr (if tx_from tx1 = JStr address
                  then tx1\<lparr>tx_value := str_concat ''-'' (tx_value tx1)\<rparr>
                  else tx1))"

text \<open>\<^verbatim>\<open>txs.map(...)\<close>, element by element; an exception ends it.\<close>

fun mapE :: "('a \<Rightarrow> error + 'b) \<Rightarrow> 'a list \<Rightarrow> error + 'b list" where
  "mapE f [] = Inr []"
| "mapE f (x # xs) = bindE (f x) (\<lambda>y. bindE (mapE f xs) (\<lambda>ys. Inr (y # ys)))"

text \<open>
  \<^verbatim>\<open>transformTxs\<close> dispatches on \<^verbatim>\<open>Array.isArray\<close>: on an array it maps \<^verbatim>\<open>transformTx\<close>,
  on a single transaction it is \<^verbatim>\<open>transformTx\<close>. The first is \<open>transformTxs\<close> here;
  \<open>processTx\<close>, which passes a single transaction, calls \<open>transformTx\<close>.
\<close>

definition transformTxs :: "string \<Rightarrow> tx list \<Rightarrow> error + tx list" where
  "transformTxs address txs = mapE (transformTx address) txs"

subsection \<open>Construction\<close>

record options =
  o_seed :: jsval
  o_networkName :: jsval
  o_minConf :: "int option"

text \<open>\<^verbatim>\<open>options.minConf || 5\<close>: the left operand if it is truthy, else \<open>5\<close>.\<close>

definition minConf_or_5 :: "int option \<Rightarrow> int" where
  "minConf_or_5 m = (case m of None \<Rightarrow> 5 | Some n \<Rightarrow> if n \<noteq> 0 then n else 5)"

text \<open>
  The object \<^verbatim>\<open>this\<close> of the constructor: before line 30 none of its fields is
  assigned; from line 40 on it has all the fields of a wallet.
\<close>

datatype constructed = Uninitialised | Initialised wallet

text \<open>What the expression \<^verbatim>\<open>new Wallet(options)\<close> gives its caller: an exception, or the
  object \<^verbatim>\<open>this\<close>.\<close>

datatype new_result = Throws error | Returns constructed

text \<open>
  What a call of the constructor does:
  \<^item> \<open>returned\<close> is what \<^verbatim>\<open>new Wallet(options)\<close> gives its caller, with the object as it
    is at that moment, when no lookup has settled yet;
  \<^item> \<open>settled\<close> is that same object once the lookups have settled and the callbacks
    have run (\<open>None\<close> when the constructor has thrown and there is no object);
  \<^item> \<open>reported\<close> is what the callbacks \<^verbatim>\<open>done\<close> and \<^verbatim>\<open>txDone\<close> receive, \<^verbatim>\<open>done(err)\<close> or
    \<^verbatim>\<open>done(null, that)\<close> (\<open>None\<close> when they are never called);
  \<^item> \<open>calls\<close> are the requests sent to the remote API.
\<close>

record construction =
  returned :: new_result
  settled :: "constructed option"
  reported :: "(error + wallet) option"
  calls :: "api_call list"

text \<open>The fields as the synchronous part of the constructor sets them (lines 30 to 40),
  \<open>ew\<close> being the key derived at line 36.\<close>

definition Wallet_init :: "lib \<Rightarrow> options \<Rightarrow> etherWallet \<Rightarrow> wallet" where
  "Wallet_init L opts ew =
     \<lparr>networkName = o_networkName opts,
      balance = JNum 0,
      confirmedBalance = JNum 0,
      historyTxs = [],
      txsCount = 0,
      etherWallet = ew,
      addressString = getAddressString L ew,
      gasPrice = JStr ''0'',
      gasLimit = JStr ''21000'',
      minConf = minConf_or_5 (o_minConf opts)\<rparr>"

text \<open>
  The failed assertion on the seed is caught and reported (lines 24 to 28); an exception
  of the key derivation at line 36 is not caught and leaves the constructor. The handler
  of the four results assigns four fields (lines 51 to 54) before it normalises the
  history, so an exception of \<^verbatim>\<open>transformTxs\<close> leaves them assigned.
\<close>

definition Wallet :: "remote \<Rightarrow> lib \<Rightarrow> nat list \<Rightarrow> options \<Rightarrow> construction" where
  "Wallet R L sched opts =
     (if \<not> truthy (o_seed opts)
      then \<lparr>returned = Returns Uninitialised, settled = Some Uninitialised,
            reported = Some (Inl InvalidArgument), calls = []\<rparr>
      else
        case fromMasterSeed L (o_seed opts) of
          Inl e \<Rightarrow> \<lparr>returned = Throws e, settled = None, reported = None, calls = []\<rparr>
        | Inr ew \<Rightarrow>
            let that = Wallet_init L opts ew;
                sent = [BalanceCall (addressString that) (minConf that),
                        TxsCountCall (addressString that),
                        GasPriceCall,
                        TxsCall (addressString that)]
            in case Promise_all sched
                      (addresses_balance R (addressString that) (minConf that))
                      (addresses_txsCount R (addressString that))
                      (common_gasPrice R)
                      (addresses_txs R (addressString that)) of
                 Inl e \<Rightarrow>
                   \<lparr>returned = Returns (Initialised that), settled = Some (Initialised that),
                    reported = Some (Inl e), calls = sent\<rparr>
               | Inr (r0, r1, r2, r3) \<Rightarrow>
                   let that1 = that\<lparr>balance := b_balance r0,
                                     confirmedBalance := b_confirmedBalance r0,
                                     txsCount := r1,
                                     gasPrice := r2\<rparr>
                   in case transformTxs (addressString that) r3 of
                        Inl e \<Rightarrow>
                          \<lparr>returned = Returns (Initialised that),
                           settled = Some (Initialised that1),
                           reported = Some (Inl e), calls = sent\<rparr>
                      | Inr h \<Rightarrow>
                          \<lparr>returned = Returns (Initialised that),
                           settled = Some (Initialised (that1\<lparr>historyTxs := h\<rparr>)),
                           reported = Some (Inr (that1\<lparr>historyTxs := h\<rparr>)),
                           calls = sent\<rparr>)"

subsection \<open>Accounting\<close>

definition getBalance :: "wallet \<Rightarrow> jsval" where
  "getBalance w = balance w"

text \<open>The test of \<^verbatim>\<open>getPendingSpends\<close>:
  \<^verbatim>\<open>tx.confirmations < that.minConf && tx.from === that.addressString\<close>;
  \<^verbatim>\<open>undefined < n\<close> is false.\<close>

definition is_pending_spend :: "wallet \<Rightarrow> tx \<Rightarrow> bool" where
  "is_pending_spend w tx =
     ((case tx_confirmations tx of None \<Rightarrow> False | Some c \<Rightarrow> c < minConf w)
      \<and> tx_from tx = JStr (addressString w))"

text \<open>The callback of \<^verbatim>\<open>reduce\<close> (its accumulator \<^verbatim>\<open>sum\<close> is \<open>acc\<close> here), and
  \<^verbatim>\<open>reduce\<close> itself, from left to right.\<close>

definition pending_step :: "wallet \<Rightarrow> big \<Rightarrow> tx \<Rightarrow> error + big" where
  "pending_step w acc tx =
     (if is_pending_spend w tx
      then bindE (Big (tx_value tx)) (\<lambda>v.
           bindE (Big (tx_gas tx)) (\<lambda>g.
           bindE (Big (tx_gasPrice tx)) (\<lambda>p.
           let amount = Big_plus (Big_abs v) (Big_times g p)
           in Inr (Big_plus acc amount))))
      else Inr acc)"

fun reduce :: "('b \<Rightarrow> 'a \<Rightarrow> error + 'b) \<Rightarrow> 'b \<Rightarrow> 'a list \<Rightarrow> error + 'b" where
  "reduce f acc [] = Inr acc"
| "reduce f acc (x # xs) = bindE (f acc x) (\<lambda>acc'. reduce f acc' xs)"

definition getPendingSpends :: "wallet \<Rightarrow> error + big" where
  "getPendingSpends w = reduce (pending_step w) (Dec 0 0) (historyTxs w)"

definition getDefaultFee :: "wallet \<Rightarrow> error + big" where
  "getDefaultFee w =
     bindE (Big (gasLimit w)) (\<lambda>l.
     bindE (Big (gasPrice w)) (\<lambda>p.
     Inr (Big_times l p)))"

subsection \<open>Sending\<close>

text \<open>
  \<open>processTx\<close> and \<open>sendTx\<close> return what the callback \<^verbatim>\<open>done\<close> receives, and the
  wallet as it is afterwards. An exception in the handler of the fetched transaction
  is caught by \<^verbatim>\<open>.catch(done)\<close>; all of them are thrown before the first assignment
  to the wallet.
\<close>

definition processTx :: "remote \<Rightarrow> wallet \<Rightarrow> string \<Rightarrow> (error + tx) \<times> wallet" where
  "processTx R that txId =
     (case transactions_get R txId (addressString that) of
        Inl e \<Rightarrow> (Inl e, that)
      | Inr raw \<Rightarrow>
          (case bindE (transformTx (addressString that) raw) (\<lambda>historyTx.
                bindE (Big (tx_gas historyTx)) (\<lambda>g.
                bindE (Big (tx_gasPrice historyTx)) (\<lambda>p.
                let maxFee = Big_times g p
                in bindE (Big (balance that)) (\<lambda>b.
                   bindE (Big (tx_value historyTx)) (\<lambda>v.
                   Inr (historyTx,
                        that\<lparr>balance := JStr (toFixed (Big_minus (Big_plus b v) maxFee)),
                             txsCount := (if tx_from historyTx = JStr (addressString that)
                                          then txsCount that + 1 else txsCount that),
                             historyTxs := historyTx # historyTxs that\<rparr>)))))) of
             Inl e \<Rightarrow> (Inl e, that)
           | Inr (historyTx, that') \<Rightarrow> (Inr historyTx, that')))"

definition sendTx :: "remote \<Rightarrow> lib \<Rightarrow> wallet \<Rightarrow> signed_tx \<Rightarrow> (error + tx) \<times> wallet" where
  "sendTx R L that tx =
     (let rawtx = ''0x'' @ toHex (rlp_encode L tx)
      in case transactions_propagate R rawtx of
           Inl e \<Rightarrow> (Inl e, that)
         | Inr txId \<Rightarrow> processTx R that txId)"

subsection \<open>Importing a private key\<close>

definition createPrivateKey :: "lib \<Rightarrow> string \<Rightarrow> error + byte list" where
  "createPrivateKey L str =
     (let str1 = (if take 2 str = ''0x'' then drop 2 str else str)
      in case fromHex str1 of
           None \<Rightarrow> Inl (TypeError ''Invalid hex string'')
         | Some privateKey \<Rightarrow>
             if \<not> isValidPrivate L privateKey then Inl InvalidPrivateKey
             else Inr privateKey)"

record import_options =
  i_amount :: jsval
  i_fee :: jsval
  i_txsCount :: int
  i_to :: jsval
  i_privateKey :: "byte list"

definition createImportTx :: "lib \<Rightarrow> wallet \<Rightarrow> import_options \<Rightarrow> error + signed_tx" where
  "createImportTx L this opts =
     bindE (Big (i_amount opts)) (\<lambda>a.
     bindE (Big (i_fee opts)) (\<lambda>f.
     let amount = Big_minus a f
     in if Big_lt amount (Dec 0 0) then Inl InsufficientFunds
        else bindE (BN L (gasPrice this)) (\<lambda>gp.
             bindE (BN L (gasLimit this)) (\<lambda>gl.
             bindE (BN L (JStr (toFixed amount))) (\<lambda>v.
             bindE (new_EthereumTx L \<lparr>e_nonce = i_txsCount opts,
                                     e_gasPrice = gp,
                                     e_gasLimit = gl,
                                     e_to = i_to opts,
                                     e_value = v,
                                     e_chainId = 1\<rparr>) (\<lambda>tx.
             sign L tx (i_privateKey opts)))))))"

subsection \<open>Persistence\<close>

text \<open>
  The object written by \<^verbatim>\<open>serialize\<close> and read by \<^verbatim>\<open>deserialize\<close>. \<^verbatim>\<open>JSON.stringify\<close>
  followed by \<^verbatim>\<open>JSON.parse\<close> gives back an object with the same properties for the
  values of this model (a property holding \<^verbatim>\<open>undefined\<close> is dropped and reads back as
  \<^verbatim>\<open>undefined\<close>); the text in between is not modelled, the record stands for the object
  on both sides.
\<close>

record serialized =
  s_networkName :: jsval
  s_balance :: jsval
  s_confirmedBalance :: jsval
  s_historyTxs :: "tx list"
  s_txsCount :: int
  s_privateKey :: string
  s_addressString :: string
  s_gasPrice :: jsval
  s_gasLimit :: jsval
  s_minConf :: int

definition serialize :: "lib \<Rightarrow> wallet \<Rightarrow> serialized" where
  "serialize L this =
     \<lparr>s_networkName = networkName this,
      s_balance = getBalance this,
      s_confirmedBalance = confirmedBalance this,
      s_historyTxs = historyTxs this,
      s_txsCount = txsCount this,
      s_privateKey = getPrivateKeyString (etherWallet this),
      s_addressString = getAddressString L (etherWallet this),
      s_gasPrice = gasPrice this,
      s_gasLimit = gasLimit this,
      s_minConf = minConf this\<rparr>"

definition deserialize :: "lib \<Rightarrow> serialized \<Rightarrow> error + wallet" where
  "deserialize L deserialized =
     bindE (createPrivateKey L (s_privateKey deserialized)) (\<lambda>privateKey.
     Inr \<lparr>networkName = s_networkName deserialized,
          balance = s_balance deserialized,
          confirmedBalance = s_confirmedBalance deserialized,
          historyTxs = s_historyTxs deserialized,
          txsCount = s_txsCount deserialized,
          etherWallet = fromPrivateKey privateKey,
          addressString = s_addressString deserialized,
          gasPrice = s_gasPrice deserialized,
          gasLimit = s_gasLimit deserialized,
          minConf = s_minConf deserialized\<rparr>)"

section \<open>Reading amounts\<close>

text \<open>
  For stating results: a field is \<open>numeric\<close> when \<^verbatim>\<open>Big\<close> accepts it, and \<open>num\<close> is the
  rational number it then stands for.
\<close>

definition numeric :: "jsval \<Rightarrow> bool" where
  "numeric v = (case Big v of Inl e \<Rightarrow> False | Inr b \<Rightarrow> True)"

definition num :: "jsval \<Rightarrow> rat" where
  "num v = (case Big v of Inl e \<Rightarrow> 0 | Inr b \<Rightarrow> val b)"

section \<open>Example inputs\<close>

text \<open>
  A stand-in for the cryptographic libraries, on which the model is run below. Its
  validity test of a private key is the one of secp256k1 (32 bytes, a big-endian
  number above \<open>0\<close> and below the order of the group); it derives one key from every
  seed that is text and throws on any other seed; it accepts the fields of a
  transaction when the numbers fit in 32 bytes and \<open>to\<close> is \<open>0x\<close> and 40 more characters;
  the address of a key is taken to be its last 20 bytes, and the encoding of a signed
  transaction to be its signature: they only have to be some functions.
\<close>

definition be_nat :: "byte list \<Rightarrow> nat" where
  "be_nat bs = foldl (\<lambda>a b. 256 * a + unat b) 0 bs"

definition secp256k1_n :: nat where
  "secp256k1_n =
     115792089237316195423570985008687907852837564279074904382605163141518161494337"

definition privateKeyVerify :: "byte list \<Rightarrow> bool" where
  "privateKeyVerify k = (length k = 32 \<and> 0 < be_nat k \<and> be_nat k < secp256k1_n)"

definition test_key :: "byte list" where
  "test_key = [0, 0, 0, 0, 0, 0, 0, 0, 0, 0, 0, 0, 0, 0, 0, 0, 0, 0, 0, 0, 0, 0, 0, 0, 0, 0, 0, 0, 0, 0, 0, 1]"

definition foreign_key :: "byte list" where
  "foreign_key = [0, 0, 0, 0, 0, 0, 0, 0, 0, 0, 0, 0, 0, 0, 0, 0, 0, 0, 0, 0, 0, 0, 0, 0, 0, 0, 0, 0, 0, 0, 0, 2]"

definition test_key_hex :: string where
  "test_key_hex = ''0x0000000000000000000000000000000000000000000000000000000000000001''"

definition test_address :: string where
  "test_address = ''0x0000000000000000000000000000000000000001''"

definition other_address :: string where
  "other_address = ''0x000000000000000000000000000000000000000a''"

definition wrong_address :: string where
  "wrong_address = ''0xffffffffffffffffffffffffffffffffffffffff''"

definition test_validTx :: "EthereumTx \<Rightarrow> bool" where
  "test_validTx tx =
     (0 \<le> e_nonce tx \<and> e_nonce tx < 2 ^ 256 \<and> 0 \<le> e_gasPrice tx \<and> e_gasPrice tx < 2 ^ 256
      \<and> 0 \<le> e_gasLimit tx \<and> e_gasLimit tx < 2 ^ 256 \<and> 0 \<le> e_value tx \<and> e_value tx < 2 ^ 256
      \<and> (case e_to tx of JStr s \<Rightarrow> length s = 42 \<and> take 2 s = ''0x'' | _ \<Rightarrow> False))"

definition test_lib :: lib where
  "test_lib =
     \<lparr>fromMasterSeed = (\<lambda>seed. case seed of JStr s \<Rightarrow> Inr test_key
                                          | _ \<Rightarrow> Inl (LibraryError ''hdkey'')),
      privateToAddress = (\<lambda>k. drop 12 k),
      isValidPrivate = privateKeyVerify,
      validTx = test_validTx,
      ecsign = (\<lambda>k tx. k),
      rlp_encode = (\<lambda>tx. snd tx),
      bn_other = (\<lambda>v. None)\<rparr>"

definition test_wallet :: wallet where
  "test_wallet =
     \<lparr>networkName = JStr ''ethereum'',
      balance = JStr ''1000000'',
      confirmedBalance = JStr ''1000000'',
      historyTxs = [],
      txsCount = 7,
      etherWallet = test_key,
      addressString = test_address,
      gasPrice = JStr ''2'',
      gasLimit = JStr ''21000'',
      minConf = 5\<rparr>"

definition import_100_100 :: import_options where
  "import_100_100 =
     \<lparr>i_amount = JStr ''100'', i_fee = JStr ''100'', i_txsCount = 3,
      i_to = JStr test_address, i_privateKey = foreign_key\<rparr>"

definition import_100_150 :: import_options where
  "import_100_150 =
     \<lparr>i_amount = JStr ''100'', i_fee = JStr ''150'', i_txsCount = 3,
      i_to = JStr test_address, i_privateKey = foreign_key\<rparr>"

definition import_150_100 :: import_options where
  "import_150_100 =
     \<lparr>i_amount = JStr ''150'', i_fee = JStr ''100'', i_txsCount = 3,
      i_to = JStr test_address, i_privateKey = foreign_key\<rparr>"

text \<open>The example of the specification: one unconfirmed spend of \<open>50\<close> with gas
  \<open>21000\<close> at price \<open>1\<close>, followed by a confirmed spend and an unconfirmed receipt.\<close>

definition pending_wallet :: wallet where
  "pending_wallet =
     test_wallet\<lparr>historyTxs :=
       [\<lparr>tx_from = JStr test_address, tx_to = JStr other_address, tx_value = JStr ''-50'',
         tx_gas = JNum 21000, tx_gasPrice = JStr ''1'', tx_gasUsed = JUndefined,
         tx_confirmations = Some 1, tx_fee = JNum (- 1)\<rparr>,
        \<lparr>tx_from = JStr test_address, tx_to = JStr other_address, tx_value = JStr ''-7'',
         tx_gas = JNum 21000, tx_gasPrice = JStr ''1'', tx_gasUsed = JNum 21000,
         tx_confirmations = Some 9, tx_fee = JStr ''21000''\<rparr>,
        \<lparr>tx_from = JStr other_address, tx_to = JStr test_address, tx_value = JStr ''12'',
         tx_gas = JNum 21000, tx_gasPrice = JStr ''1'', tx_gasUsed = JUndefined,
         tx_confirmations = Some 0, tx_fee = JNum (- 1)\<rparr>]\<rparr>"

text \<open>Two raw transactions as the remote API returns them: a spend of \<open>30\<close> by the
  test wallet that is not mined yet, and a mined receipt of \<open>12\<close>.\<close>

definition raw_send :: tx where
  "raw_send =
     \<lparr>tx_from = JStr test_address, tx_to = JStr other_address, tx_value = JStr ''30'',
      tx_gas = JStr ''21000'', tx_gasPrice = JStr ''2'', tx_gasUsed = JUndefined,
      tx_confirmations = Some 0, tx_fee = JUndefined\<rparr>"

definition raw_receive :: tx where
  "raw_receive =
     \<lparr>tx_from = JStr other_address, tx_to = JStr test_address, tx_value = JStr ''12'',
      tx_gas = JStr ''21000'', tx_gasPrice = JStr ''2'', tx_gasUsed = JStr ''21000'',
      tx_confirmations = Some 8, tx_fee = JUndefined\<rparr>"

text \<open>A remote API that knows these two transactions.\<close>

definition test_remote :: remote where
  "test_remote =
     \<lparr>addresses_balance = (\<lambda>a m. Inr \<lparr>b_balance = JStr ''1000000'',
                                         b_confirmedBalance = JStr ''900000''\<rparr>),
      addresses_txsCount = (\<lambda>a. Inr 7),
      common_gasPrice = Inr (JStr ''2''),
      addresses_txs = (\<lambda>a. Inr [raw_receive]),
      transactions_get = (\<lambda>txId a. if txId = ''0xabc'' then Inr raw_send
                                     else if txId = ''0xdef'' then Inr raw_receive
                                     else Inl (RemoteFailure ''not found'')),
      transactions_propagate = (\<lambda>rawtx. if rawtx = ''0x'' then Inl (RemoteFailure ''empty'')
                                         else if rawtx = ''0x040506'' then Inr ''0x999''
                                         else Inr ''0xabc'')\<rparr>"

text \<open>The same two transactions after normalisation by the test wallet.\<close>

definition normalized_send :: tx where
  "normalized_send = raw_send\<lparr>tx_fee := JNum (- 1), tx_value := JStr ''-30''\<rparr>"

definition normalized_receive :: tx where
  "normalized_receive = raw_receive\<lparr>tx_fee := JStr ''42000''\<rparr>"

text \<open>Two signed transactions: under the stand-in library the first is encoded as the
  empty byte string, which the test remote refuses, and the second as \<open>040506\<close>, which
  it accepts under an id that it cannot fetch afterwards.\<close>

definition unsendable_tx :: signed_tx where
  "unsendable_tx =
     (\<lparr>e_nonce = 7, e_gasPrice = 2, e_gasLimit = 21000, e_to = JStr other_address, e_value = 30,
       e_chainId = 1\<rparr>, [])"

definition unfetchable_tx :: signed_tx where
  "unfetchable_tx =
     (\<lparr>e_nonce = 7, e_gasPrice = 2, e_gasLimit = 21000, e_to = JStr other_address, e_value = 30,
       e_chainId = 1\<rparr>, [4, 5, 6])"

text \<open>Options for the constructor: a seed with \<open>minConf = 0\<close>, and an empty seed; and a
  remote API whose transaction count lookup is rejected.\<close>

definition test_options :: options where
  "test_options = \<lparr>o_seed = JStr ''5eed'', o_networkName = JStr ''ethereum'', o_minConf = Some 0\<rparr>"

definition empty_seed_options :: options where
  "empty_seed_options = \<lparr>o_seed = JStr [], o_networkName = JStr ''ethereum'', o_minConf = None\<rparr>"

definition failing_remote :: remote where
  "failing_remote = test_remote\<lparr>addresses_txsCount := (\<lambda>a. Inl (RemoteFailure ''timeout''))\<rparr>"

text \<open>The wallet that the constructor reports for \<open>test_options\<close> and \<open>test_remote\<close>.\<close>

definition constructed_wallet :: wallet where
  "constructed_wallet =
     \<lparr>networkName = JStr ''ethereum'',
      balance = JStr ''1000000'',
      confirmedBalance = JStr ''900000'',
      historyTxs = [normalized_receive],
      txsCount = 7,
      etherWallet = test_key,
      addressString = test_address,
      gasPrice = JStr ''2'',
      gasLimit = JStr ''21000'',
      minConf = 5\<rparr>"

text \<open>A persisted record whose address is not the address of its private key.\<close>

definition inconsistent_record :: serialized where
  "inconsistent_record =
     \<lparr>s_networkName = JStr ''ethereum'',
      s_balance = JStr ''1000000'',
      s_confirmedBalance = JStr ''1000000'',
      s_historyTxs = [],
      s_txsCount = 7,
      s_privateKey = test_key_hex,
      s_addressString = wrong_address,
      s_gasPrice = JStr ''2'',
      s_gasLimit = JStr ''21000'',
      s_minConf = 5\<rparr>"

text \<open>The wallet that \<open>deserialize\<close> builds from this record.\<close>

definition inconsistent_wallet :: wallet where
  "inconsistent_wallet =
     \<lparr>networkName = JStr ''ethereum'',
      balance = JStr ''1000000'',
      confirmedBalance = JStr ''1000000'',
      historyTxs = [],
      txsCount = 7,
      etherWallet = test_key,
      addressString = wrong_address,
      gasPrice = JStr ''2'',
      gasLimit = JStr ''21000'',
      minConf = 5\<rparr>"

text \<open>The object of the constructor for \<open>test_options\<close> before any lookup has settled.\<close>

definition placeholder_wallet :: wallet where
  "placeholder_wallet =
     \<lparr>networkName = JStr ''ethereum'',
      balance = JNum 0,
      confirmedBalance = JNum 0,
      historyTxs = [],
      txsCount = 0,
      etherWallet = test_key,
      addressString = test_address,
      gasPrice = JStr ''0'',
      gasLimit = JStr ''21000'',
      minConf = 5\<rparr>"

text \<open>A remote API that answers every lookup, with a history entry whose \<open>gasUsed\<close> is
  not a numeral; and the object of the constructor after such answers.\<close>

definition garbled_remote :: remote where
  "garbled_remote =
     test_remote\<lparr>addresses_txs := (\<lambda>a. Inr [raw_receive\<lparr>tx_gasUsed := JStr ''abc''\<rparr>])\<rparr>"

definition half_updated_wallet :: wallet where
  "half_updated_wallet =
     \<lparr>networkName = JStr ''ethereum'',
      balance = JStr ''1000000'',
      confirmedBalance = JStr ''900000'',
      historyTxs = [],
      txsCount = 7,
      etherWallet = test_key,
      addressString = test_address,
      gasPrice = JStr ''2'',
      gasLimit = JStr ''21000'',
      minConf = 5\<rparr>"

text \<open>An import whose private key is 32 zero bytes, which is not a valid key.\<close>

definition import_zero_key :: import_options where
  "import_zero_key = import_150_100\<lparr>i_privateKey := replicate 32 0\<rparr>"

text \<open>An import to an address of one byte, which the transaction library refuses (the
  field \<^verbatim>\<open>to\<close> has 20 bytes).\<close>

definition import_short_to :: import_options where
  "import_short_to = import_150_100\<lparr>i_to := JStr ''0x01''\<rparr>"

section \<open>Reachable wallets\<close>

text \<open>
  The wallets a user of the module can hold: the object that the constructor returns
  (as it is when returned, and as it is once the lookups have settled) and the wallet
  that it reports, those restored by \<open>deserialize\<close> from a record written by \<open>serialize\<close> or, more generally,
  from a record whose \<open>addressString\<close> is the address of its \<open>privateKey\<close>, and those left
  by \<open>processTx\<close> and \<open>sendTx\<close>, the only operations that assign to a wallet.
\<close>

inductive reachable :: "lib \<Rightarrow> wallet \<Rightarrow> bool" for L :: lib where
  constructed: "reported (Wallet R L sched opts) = Some (Inr w) \<Longrightarrow> reachable L w"
| returned_object: "returned (Wallet R L sched opts) = Returns (Initialised w) \<Longrightarrow> reachable L w"
| settled_object: "settled (Wallet R L sched opts) = Some (Initialised w) \<Longrightarrow> reachable L w"
| reloaded: "deserialize L (serialize L w0) = Inr w \<Longrightarrow> reachable L w"
| restored: "deserialize L r = Inr w \<Longrightarrow> createPrivateKey L (s_privateKey r) = Inr k \<Longrightarrow>
     s_addressString r = getAddressString L (fromPrivateKey k) \<Longrightarrow> reachable L w"
| recorded: "reachable L w \<Longrightarrow> processTx R w txId = (res, w') \<Longrightarrow> reachable L w'"
| sent: "reachable L w \<Longrightarrow> sendTx R L w tx = (res, w') \<Longrightarrow> reachable L w'"

section \<open>Facts about numerals and decimals\<close>

lemma addresses_differ [simp]:
  "other_address \<noteq> test_address" "test_address \<noteq> other_address"
  "wrong_address \<noteq> test_address" "test_address \<noteq> wrong_address"
  by (simp_all add: other_address_def test_address_def wrong_address_def)

lemma hex_digit_simps:
  "hex_digit 0 = CHR ''0''" "hex_digit 1 = CHR ''1''" "hex_digit 2 = CHR ''2''"
  "hex_digit 3 = CHR ''3''" "hex_digit 4 = CHR ''4''" "hex_digit 5 = CHR ''5''"
  "hex_digit 6 = CHR ''6''" "hex_digit 7 = CHR ''7''" "hex_digit 8 = CHR ''8''"
  "hex_digit 9 = CHR ''9''" "hex_digit 10 = CHR ''a''" "hex_digit 11 = CHR ''b''"
  "hex_digit 12 = CHR ''c''" "hex_digit 13 = CHR ''d''" "hex_digit 14 = CHR ''e''"
  "hex_digit 15 = CHR ''f''" "hex_digit (Suc 0) = CHR ''1''"
  by (simp_all add: hex_digit_def char_of_eq_iff)

lemma test_lib_seed: "fromMasterSeed test_lib (JStr s) = Inr test_key"
  by (simp add: test_lib_def)

lemma test_lib_address: "getAddressString test_lib test_key = test_address"
  by (simp add: test_lib_def getAddressString_def test_key_def test_address_def hex_digit_simps)

lemma test_key_valid: "isValidPrivate test_lib test_key"
  by (simp add: test_lib_def privateKeyVerify_def test_key_def be_nat_def secp256k1_n_def)

lemma test_key_string: "getPrivateKeyString test_key = test_key_hex"
  by (simp add: getPrivateKeyString_def test_key_def test_key_hex_def hex_digit_simps)

lemma test_wallet_valid:
  "isValidPrivate test_lib (etherWallet test_wallet)"
  "addressString test_wallet = getAddressString test_lib (etherWallet test_wallet)"
  by (simp_all add: test_wallet_def test_lib_address test_key_valid)

lemma bindE_Inr: "bindE m f = Inr y \<longleftrightarrow> (\<exists>x. m = Inr x \<and> f x = Inr y)"
  by (cases m) auto

lemma digit_char_is_digit: "d < 10 \<Longrightarrow> is_digit (digit_char d)"
  by (simp add: is_digit_def digit_char_def)

lemma digit_val_digit_char: "d < 10 \<Longrightarrow> digit_val (digit_char d) = d"
  by (simp add: digit_val_def digit_char_def)

lemma digits_small: "n < 10 \<Longrightarrow> digits n = [digit_char n]"
  by (subst digits.simps) simp

lemma digits_large: "\<not> n < 10 \<Longrightarrow> digits n = digits (n div 10) @ [digit_char (n mod 10)]"
  by (subst digits.simps) simp

lemma digits_nonempty: "digits n \<noteq> []"
  by (cases "n < 10") (simp_all add: digits_small digits_large)

lemma all_digits_digits: "all_digits (digits n)"
proof (induction n rule: digits.induct)
  case (1 n)
  show ?case
  proof (cases "n < 10")
    case True
    then show ?thesis by (simp add: digits_small all_digits_def digit_char_is_digit)
  next
    case False
    with 1 show ?thesis by (simp add: digits_large all_digits_def digit_char_is_digit)
  qed
qed

lemma digits_val_snoc: "digits_val (cs @ [c]) = 10 * digits_val cs + digit_val c"
  by (simp add: digits_val_def)

lemma digits_val_digits: "digits_val (digits n) = n"
proof (induction n rule: digits.induct)
  case (1 n)
  show ?case
  proof (cases "n < 10")
    case True
    then show ?thesis by (simp add: digits_small digits_val_def digit_val_digit_char)
  next
    case False
    with 1 have "digits_val (digits (n div 10)) = n div 10" by simp
    with False show ?thesis
      by (simp add: digits_large digits_val_snoc digit_val_digit_char)
  qed
qed

lemma digits_val_zeros: "digits_val (replicate k CHR ''0'' @ ds) = digits_val ds"
  by (induction k) (simp_all add: digits_val_def digit_val_def)

lemma val_norm: "val (norm m s) = val (Dec m s)"
proof (induction m s rule: norm.induct)
  case (1 m)
  show ?case by simp
next
  case (2 m s)
  show ?case
  proof (cases "m mod 10 = 0")
    case True
    then have "m = 10 * (m div 10)" by presburger
    then have "(of_int m :: rat) = 10 * of_int (m div 10)"
      by (metis of_int_mult of_int_numeral)
    with True 2 show ?thesis by simp
  next
    case False
    then show ?thesis by simp
  qed
qed

lemma normal_norm: "normal (norm m s)"
  by (induction m s rule: norm.induct) auto

lemma norm_normal: "normal (Dec m s) \<Longrightarrow> norm m s = Dec m s"
  by (cases s) auto


lemma norm_neg: "norm (- m) s = Big_neg (norm m s)"
proof (induction m s rule: norm.induct)
  case (1 m)
  show ?case by simp
next
  case (2 m s)
  have a: "(- m) mod 10 = 0 \<longleftrightarrow> m mod 10 = 0"
    by (simp add: mod_eq_0_iff_dvd)
  have b: "(- m) div 10 = - (m div 10)" if "m mod 10 = 0"
  proof -
    from that have "10 dvd m" by (simp add: mod_eq_0_iff_dvd)
    then show ?thesis by (simp add: dvd_neg_div)
  qed
  show ?case using 2 a b by simp
qed



lemma val_Big_neg: "val (Big_neg a) = - val a"
  by (cases a) simp

lemma val_Big_abs: "val (Big_abs a) = \<bar>val a\<bar>"
  by (cases a) (simp add: abs_divide)

lemma val_Big_times: "val (Big_times a b) = val a * val b"
  by (cases a; cases b) (simp add: val_norm power_add)

lemma val_align: "s \<le> k \<Longrightarrow> (of_int (m * 10 ^ (k - s)) :: rat) / 10 ^ k = of_int m / 10 ^ s"
proof -
  assume "s \<le> k"
  then have "(10::rat) ^ k = 10 ^ (k - s) * 10 ^ s"
    by (simp flip: power_add)
  then show ?thesis by simp
qed

lemma val_Big_plus: "val (Big_plus a b) = val a + val b"
proof (cases a; cases b)
  fix m s n t
  assume a: "a = Dec m s" and b: "b = Dec n t"
  have "val (Big_plus a b) =
        (of_int (m * 10 ^ (max s t - s)) + of_int (n * 10 ^ (max s t - t))) / 10 ^ max s t"
    by (simp add: a b val_norm)
  also have "\<dots> = of_int (m * 10 ^ (max s t - s)) / 10 ^ max s t
                  + of_int (n * 10 ^ (max s t - t)) / 10 ^ max s t"
    by (simp add: add_divide_distrib)
  also have "\<dots> = of_int m / 10 ^ s + of_int n / 10 ^ t"
    by (simp only: val_align [of s "max s t" m] val_align [of t "max s t" n] max.cobounded1 max.cobounded2)
  finally show ?thesis by (simp add: a b)
qed

lemma val_Big_minus: "val (Big_minus a b) = val a - val b"
  by (simp add: Big_minus_def val_Big_plus val_Big_neg)

lemma Big_lt_val: "Big_lt a b \<longleftrightarrow> val a < val b"
proof (cases a; cases b)
  fix m s n t
  assume a: "a = Dec m s" and b: "b = Dec n t"
  let ?k = "max s t"
  have "val a < val b \<longleftrightarrow>
        (of_int (m * 10 ^ (?k - s)) :: rat) / 10 ^ ?k < of_int (n * 10 ^ (?k - t)) / 10 ^ ?k"
    by (simp only: a b val.simps val_align [of s "max s t" m] val_align [of t "max s t" n] max.cobounded1 max.cobounded2)
  also have "\<dots> \<longleftrightarrow> (of_int (m * 10 ^ (?k - s)) :: rat) < of_int (n * 10 ^ (?k - t))"
    by (simp add: divide_less_cancel)
  also have "\<dots> \<longleftrightarrow> m * 10 ^ (?k - s) < n * 10 ^ (?k - t)"
    by (simp only: of_int_less_iff)
  finally show ?thesis by (simp add: a b)
qed

lemma normal_Big_plus: "normal (Big_plus a b)"
  by (cases a; cases b) (simp add: normal_norm)

lemma normal_Big_times: "normal (Big_times a b)"
  by (cases a; cases b) (simp add: normal_norm)

lemma normal_Big_minus: "normal (Big_minus a b)"
  by (simp add: Big_minus_def normal_Big_plus)

lemma normal_Big_neg: "normal a \<Longrightarrow> normal (Big_neg a)"
  by (cases a) (auto simp: mod_eq_0_iff_dvd)

lemma normal_Big_abs: "normal a \<Longrightarrow> normal (Big_abs a)"
  by (cases a) (auto simp: mod_eq_0_iff_dvd)

lemma is_digit_not_e: "is_digit c \<Longrightarrow> \<not> is_e c"
  by (auto simp: is_digit_def is_e_def)

lemma is_digit_not_dot: "is_digit c \<Longrightarrow> \<not> is_dot c"
  by (auto simp: is_digit_def is_dot_def)

lemma is_digit_not_minus: "is_digit c \<Longrightarrow> c \<noteq> CHR ''-''"
  by (auto simp: is_digit_def)

lemma all_digits_append [simp]: "all_digits (xs @ ys) \<longleftrightarrow> all_digits xs \<and> all_digits ys"
  by (simp add: all_digits_def)

lemma all_digits_set: "all_digits xs \<longleftrightarrow> (\<forall>c\<in>set xs. is_digit c)"
  by (simp add: all_digits_def list_all_iff)

lemma split_at_none: "(\<And>c. c \<in> set s \<Longrightarrow> \<not> P c) \<Longrightarrow> split_at P s = (s, None)"
  by (simp add: split_at_def takeWhile_eq_all_conv dropWhile_eq_Nil_conv [THEN iffD2])

lemma split_at_some:
  "(\<And>c. c \<in> set xs \<Longrightarrow> \<not> P c) \<Longrightarrow> P d \<Longrightarrow> split_at P (xs @ d # ys) = (xs, Some ys)"
  by (simp add: split_at_def takeWhile_append2 dropWhile_append2)

lemma Big_parse_unsigned_int:
  assumes "all_digits ip" "ip \<noteq> []"
  shows "Big_parse_unsigned ip = Some (norm (int (digits_val ip)) 0)"
proof -
  have e: "split_at is_e ip = (ip, None)"
    using assms by (intro split_at_none) (simp add: all_digits_set is_digit_not_e)
  have d: "split_at is_dot ip = (ip, None)"
    using assms by (intro split_at_none) (simp add: all_digits_set is_digit_not_dot)
  show ?thesis
    using assms by (simp add: Big_parse_unsigned_def e d all_digits_def)
qed

lemma Big_parse_unsigned_point:
  assumes "all_digits ip" "all_digits fr" "ip \<noteq> [] \<or> fr \<noteq> []"
  shows "Big_parse_unsigned (ip @ CHR ''.'' # fr) = Some (norm (int (digits_val (ip @ fr))) (length fr))"
proof -
  have "\<And>c. c \<in> set (ip @ CHR ''.'' # fr) \<Longrightarrow> \<not> is_e c"
    using assms by (auto simp: all_digits_set is_e_def is_digit_def)
  then have e: "split_at is_e (ip @ CHR ''.'' # fr) = (ip @ CHR ''.'' # fr, None)"
    by (rule split_at_none)
  have d: "split_at is_dot (ip @ CHR ''.'' # fr) = (ip, Some fr)"
    using assms by (intro split_at_some) (auto simp: all_digits_set is_dot_def is_digit_def)
  show ?thesis
    using assms by (simp add: Big_parse_unsigned_def e d)
qed

lemma Big_parse_neg:
  "Big_parse (CHR ''-'' # s) = map_option Big_neg (Big_parse_unsigned s)"
  by (simp add: Big_parse_def)

lemma Big_parse_pos:
  "s \<noteq> [] \<Longrightarrow> is_digit (hd s) \<Longrightarrow> Big_parse s = Big_parse_unsigned s"
  by (auto simp: Big_parse_def dest: is_digit_not_minus)

lemma Big_parse_toFixed:
  assumes "normal (Dec m s)"
  shows "Big_parse (toFixed (Dec m s)) = Some (Dec m s)"
proof -
  define n where "n = nat \<bar>m\<bar>"
  define ds where "ds = digits n"
  define padded where "padded = replicate (Suc s - length ds) CHR ''0'' @ ds"
  define k where "k = length padded - s"
  define body where "body = (if s = 0 then padded else take k padded @ CHR ''.'' # drop k padded)"
  have zero: "is_digit CHR ''0''" by (simp add: is_digit_def)
  have pd: "all_digits padded"
    by (simp add: padded_def ds_def all_digits_digits) (simp add: all_digits_def list_all_iff zero)
  have pv: "digits_val padded = n"
    by (simp add: padded_def ds_def digits_val_zeros digits_val_digits)
  have len: "Suc s \<le> length padded"
    by (simp add: padded_def)
  have kpos: "0 < k" and ks: "length padded - k = s"
    using len by (simp_all add: k_def)
  have tk: "take k padded \<noteq> []"
    using kpos len by (cases padded) auto
  have nm: "normal (Dec \<bar>m\<bar> s)"
    using assms by (auto simp: mod_eq_0_iff_dvd)
  have body_parse: "Big_parse_unsigned body = Some (Dec \<bar>m\<bar> s)"
  proof (cases "s = 0")
    case True
    have "padded \<noteq> []" using len by auto
    then show ?thesis
      using True pd pv by (simp add: body_def Big_parse_unsigned_int n_def)
  next
    case False
    have a: "all_digits (take k padded)" "all_digits (drop k padded)"
      using pd by (auto simp: all_digits_set dest: in_set_takeD in_set_dropD)
    have "Big_parse_unsigned body = Big_parse_unsigned (take k padded @ CHR ''.'' # drop k padded)"
      using False by (simp add: body_def)
    also have "\<dots> =
          Some (norm (int (digits_val (take k padded @ drop k padded))) (length (drop k padded)))"
      using a tk by (intro Big_parse_unsigned_point) auto
    also have "\<dots> = Some (Dec \<bar>m\<bar> s)"
      using pv ks nm by (simp add: n_def norm_normal)
    finally show ?thesis .
  qed
  have hd_body: "body \<noteq> []" "is_digit (hd body)"
  proof -
    have "hd body = hd padded"
      using tk kpos by (cases padded) (auto simp: body_def take_Cons')
    moreover have "padded \<noteq> []" using len by auto
    ultimately show "is_digit (hd body)"
      using pd by (cases padded) (auto simp: all_digits_def)
    show "body \<noteq> []" using len by (auto simp: body_def)
  qed
  have tf: "toFixed (Dec m s) = (if m < 0 then CHR ''-'' # body else body)"
    by (simp add: toFixed.simps body_def k_def padded_def ds_def n_def Let_def)
  show ?thesis
  proof (cases "m < 0")
    case True
    then show ?thesis by (simp only: tf) (simp add: Big_parse_neg body_parse)
  next
    case False
    then show ?thesis using hd_body by (simp only: tf) (simp add: Big_parse_pos body_parse)
  qed
qed

lemma Big_numeral:
  assumes "all_digits s" "s \<noteq> []"
  shows "Big (JStr s) = Inr (Dec (int (digits_val s)) 0)"
proof -
  have "is_digit (hd s)" using assms by (cases s) (auto simp: all_digits_def)
  then show ?thesis
    using assms by (simp add: Big_def Big_parse_pos Big_parse_unsigned_int)
qed

lemma Big_toFixed: "normal b \<Longrightarrow> Big (JStr (toFixed b)) = Inr b"
  by (cases b) (simp add: Big_def Big_parse_toFixed)

lemma getDefaultFee_times:
  "Big (gasLimit w) = Inr l \<Longrightarrow> Big (gasPrice w) = Inr p \<Longrightarrow> getDefaultFee w = Inr (Big_times l p)"
  by (simp add: getDefaultFee_def)

lemma eval_21000: "all_digits ''21000''" "digits_val ''21000'' = 21000"
  by (simp_all add: all_digits_def is_digit_def digits_val_def digit_val_def)

lemma eval_2: "all_digits ''2''" "digits_val ''2'' = 2"
  by (simp_all add: all_digits_def is_digit_def digits_val_def digit_val_def)

lemma digit_char_simps:
  "digit_char 0 = CHR ''0''" "digit_char 1 = CHR ''1''" "digit_char 2 = CHR ''2''"
  "digit_char 3 = CHR ''3''" "digit_char 4 = CHR ''4''" "digit_char 5 = CHR ''5''"
  "digit_char 6 = CHR ''6''" "digit_char 7 = CHR ''7''" "digit_char 8 = CHR ''8''"
  "digit_char 9 = CHR ''9''" "digit_char (Suc 0) = CHR ''1''"
  by (simp_all add: digit_char_def char_of_eq_iff)

lemma digits_length: "Suc 0 \<le> length (digits n)"
  using digits_nonempty [of n] by (cases "digits n") simp_all

lemma toFixed_int: "toFixed (Dec v 0) = (if v < 0 then CHR ''-'' # digits (nat \<bar>v\<bar>) else digits (nat \<bar>v\<bar>))"
  by (simp add: toFixed.simps Let_def digits_length)

lemma toFixed_42000: "toFixed (Dec 42000 0) = ''42000''"
  by (simp add: toFixed_int digits_large digits_small digit_char_simps)

section \<open>The default fee\<close>

text \<open>
  C9. \<open>getDefaultFee\<close> returns the exact product of the two stored fee parameters:
  when \<open>gasLimit\<close> and \<open>gasPrice\<close> are numerals of the decimals \<open>l\<close> and \<open>p\<close>, the
  result is a decimal whose value is \<open>l * p\<close>; with \<open>gasLimit = "21000"\<close> and
  \<open>gasPrice = "2"\<close> the result prints as \<open>"42000"\<close>.
\<close>

theorem getDefaultFee_exact:
  "(Big (gasLimit w) = Inr l \<longrightarrow> Big (gasPrice w) = Inr p \<longrightarrow>
      (\<exists>r. getDefaultFee w = Inr r \<and> val r = val l * val p))
   \<and> (gasLimit w = JStr ''21000'' \<longrightarrow> gasPrice w = JStr ''2'' \<longrightarrow>
      (\<exists>r. getDefaultFee w = Inr r \<and> toFixed r = ''42000''))"
proof (intro conjI impI)
  assume "Big (gasLimit w) = Inr l" "Big (gasPrice w) = Inr p"
  then show "\<exists>r. getDefaultFee w = Inr r \<and> val r = val l * val p"
    by (simp add: getDefaultFee_times val_Big_times)
next
  assume a: "gasLimit w = JStr ''21000''" "gasPrice w = JStr ''2''"
  have "getDefaultFee w = Inr (Big_times (Dec 21000 0) (Dec 2 0))"
    using a by (intro getDefaultFee_times) (simp_all add: Big_numeral eval_21000 eval_2)
  then show "\<exists>r. getDefaultFee w = Inr r \<and> toFixed r = ''42000''"
    by (simp add: toFixed_42000)
qed

theorem getDefaultFee_exact_witness:
  "Big (gasLimit test_wallet) = Inr (Dec 21000 0) \<and> Big (gasPrice test_wallet) = Inr (Dec 2 0)
   \<and> gasLimit test_wallet = JStr ''21000'' \<and> gasPrice test_wallet = JStr ''2''
   \<and> (\<exists>r. getDefaultFee test_wallet = Inr r \<and> val r = 21000 * 2)
   \<and> (\<exists>r. getDefaultFee test_wallet = Inr r \<and> toFixed r = ''42000'')"
proof -
  have h: "Big (gasLimit test_wallet) = Inr (Dec 21000 0)" "Big (gasPrice test_wallet) = Inr (Dec 2 0)"
    "gasLimit test_wallet = JStr ''21000''" "gasPrice test_wallet = JStr ''2''"
    by (simp_all add: test_wallet_def Big_numeral eval_21000 eval_2)
  show ?thesis
    using h getDefaultFee_exact [of test_wallet "Dec 21000 0" "Dec 2 0"] by simp
qed

section \<open>Importing: \<^verbatim>\<open>createImportTx\<close>\<close>

lemma BN_error: "BN L v = Inl e \<Longrightarrow> e = BNInvalid"
  by (cases v) (auto simp: BN_def Let_def split: if_splits option.splits)

lemma BN_numeral:
  assumes "all_digits s" "s \<noteq> []"
  shows "BN L (JStr s) = Inr (int (digits_val s))"
proof -
  have "is_digit (hd s)" using assms by (cases s) (auto simp: all_digits_def)
  then have "hd s \<noteq> CHR ''-''" by (rule is_digit_not_minus)
  then show ?thesis using assms by (simp add: BN_def)
qed

lemma BN_toFixed_int: "BN L (JStr (toFixed (Dec v 0))) = Inr v"
proof (cases "v < 0")
  case True
  then show ?thesis
    by (simp add: toFixed_int BN_def digits_nonempty all_digits_digits digits_val_digits)
next
  case False
  then show ?thesis
    by (simp add: toFixed_int BN_numeral digits_nonempty all_digits_digits digits_val_digits)
qed

lemma createImportTx_insufficient:
  assumes "Big (i_amount opts) = Inr a" "Big (i_fee opts) = Inr f" "val a < val f"
  shows "createImportTx L this opts = Inl InsufficientFunds"
  using assms by (simp add: createImportTx_def Big_lt_val val_Big_minus)

lemma createImportTx_sufficient:
  assumes "Big (i_amount opts) = Inr a" "Big (i_fee opts) = Inr f" "val f \<le> val a"
  shows "createImportTx L this opts =
         bindE (BN L (gasPrice this)) (\<lambda>gp.
         bindE (BN L (gasLimit this)) (\<lambda>gl.
         bindE (BN L (JStr (toFixed (Big_minus a f)))) (\<lambda>v.
         bindE (new_EthereumTx L \<lparr>e_nonce = i_txsCount opts, e_gasPrice = gp, e_gasLimit = gl,
                                 e_to = i_to opts, e_value = v, e_chainId = 1\<rparr>) (\<lambda>tx.
         sign L tx (i_privateKey opts)))))"
  using assms by (simp add: createImportTx_def Big_lt_val val_Big_minus)

lemma bindE_Inl: "bindE m g = Inl e \<longleftrightarrow> m = Inl e \<or> (\<exists>y. m = Inr y \<and> g y = Inl e)"
  by (cases m) auto

lemma library_not_insufficient:
  "new_EthereumTx L data \<noteq> Inl InsufficientFunds" "sign L tx k \<noteq> Inl InsufficientFunds"
  "BN L v \<noteq> Inl InsufficientFunds"
  by (auto simp: new_EthereumTx_def sign_def dest: BN_error)

lemma createImportTx_not_insufficient:
  assumes "Big (i_amount opts) = Inr a" "Big (i_fee opts) = Inr f" "val f \<le> val a"
  shows "createImportTx L this opts \<noteq> Inl InsufficientFunds"
  by (simp add: createImportTx_sufficient [OF assms] bindE_Inl library_not_insufficient)

lemma createImportTx_built:
  assumes "Big (i_amount opts) = Inr a" "Big (i_fee opts) = Inr f" "val f \<le> val a"
    and "BN L (gasPrice this) = Inr gp" "BN L (gasLimit this) = Inr gl" "Big_minus a f = Dec v 0"
    and "validTx L \<lparr>e_nonce = i_txsCount opts, e_gasPrice = gp, e_gasLimit = gl,
                   e_to = i_to opts, e_value = v, e_chainId = 1\<rparr>"
    and "isValidPrivate L (i_privateKey opts)"
  shows "createImportTx L this opts =
         Inr (\<lparr>e_nonce = i_txsCount opts, e_gasPrice = gp, e_gasLimit = gl,
               e_to = i_to opts, e_value = v, e_chainId = 1\<rparr>,
              ecsign L (i_privateKey opts)
                \<lparr>e_nonce = i_txsCount opts, e_gasPrice = gp, e_gasLimit = gl,
                 e_to = i_to opts, e_value = v, e_chainId = 1\<rparr>)"
  using assms(4-8)
  by (simp add: createImportTx_sufficient [OF assms(1-3)] BN_toFixed_int new_EthereumTx_def sign_def)

lemma createImportTx_invalid_key:
  assumes "Big (i_amount opts) = Inr a" "Big (i_fee opts) = Inr f" "val f \<le> val a"
    and "BN L (gasPrice this) = Inr gp" "BN L (gasLimit this) = Inr gl" "Big_minus a f = Dec v 0"
    and "validTx L \<lparr>e_nonce = i_txsCount opts, e_gasPrice = gp, e_gasLimit = gl,
                   e_to = i_to opts, e_value = v, e_chainId = 1\<rparr>"
    and "\<not> isValidPrivate L (i_privateKey opts)"
  shows "createImportTx L this opts = Inl (LibraryError ''sign'')"
  using assms(4-8)
  by (simp add: createImportTx_sufficient [OF assms(1-3)] BN_toFixed_int new_EthereumTx_def sign_def)

lemma createImportTx_refused:
  assumes "Big (i_amount opts) = Inr a" "Big (i_fee opts) = Inr f" "val f \<le> val a"
    and "BN L (gasPrice this) = Inr gp" "BN L (gasLimit this) = Inr gl" "Big_minus a f = Dec v 0"
    and "\<not> validTx L \<lparr>e_nonce = i_txsCount opts, e_gasPrice = gp, e_gasLimit = gl,
                   e_to = i_to opts, e_value = v, e_chainId = 1\<rparr>"
  shows "createImportTx L this opts = Inl (LibraryError ''EthereumTx'')"
  using assms(4-7)
  by (simp add: createImportTx_sufficient [OF assms(1-3)] BN_toFixed_int new_EthereumTx_def)

lemma eval_100: "all_digits ''100''" "digits_val ''100'' = 100"
  by (simp_all add: all_digits_def is_digit_def digits_val_def digit_val_def)

lemma eval_150: "all_digits ''150''" "digits_val ''150'' = 150"
  by (simp_all add: all_digits_def is_digit_def digits_val_def digit_val_def)

lemma Big_100: "Big (JStr ''100'') = Inr (Dec 100 0)"
  by (simp add: Big_numeral eval_100)

lemma Big_150: "Big (JStr ''150'') = Inr (Dec 150 0)"
  by (simp add: Big_numeral eval_150)

lemma BN_test_wallet:
  "BN L (gasPrice test_wallet) = Inr 2" "BN L (gasLimit test_wallet) = Inr 21000"
  by (simp_all add: test_wallet_def BN_numeral eval_2 eval_21000)

lemma foreign_key_valid: "isValidPrivate test_lib foreign_key"
  by (simp add: test_lib_def privateKeyVerify_def foreign_key_def be_nat_def secp256k1_n_def)

lemma zero_key_invalid: "\<not> isValidPrivate test_lib (replicate 32 0)"
proof -
  have "foldl (\<lambda>a b. 256 * a + unat b) 0 (replicate n (0 :: byte)) = 0" for n
    by (induction n) simp_all
  then show ?thesis
    by (simp add: test_lib_def privateKeyVerify_def be_nat_def)
qed

lemma test_validTx_import:
  "0 \<le> v \<Longrightarrow> v < 1000 \<Longrightarrow>
   validTx test_lib \<lparr>e_nonce = 3, e_gasPrice = 2, e_gasLimit = 21000,
                     e_to = JStr test_address, e_value = v, e_chainId = 1\<rparr>"
  by (simp add: test_lib_def test_validTx_def test_address_def)

text \<open>
  C1, as stated, has \<open>createImportTx\<close> fail with \<open>InsufficientFunds\<close> whenever the
  import amount is at most the fee. The test of the code is \<^verbatim>\<open>amount.lt(0)\<close> on the
  difference: with amount \<open>100\<close> and fee \<open>100\<close> the difference is \<open>0\<close>, nothing is
  thrown, and a transaction of value \<open>0\<close> is built and signed.
\<close>

theorem createImportTx_equal_counterexample:
  "Big (i_amount import_100_100) = Inr (Dec 100 0)
   \<and> Big (i_fee import_100_100) = Inr (Dec 100 0)
   \<and> val (Dec 100 0) \<le> val (Dec 100 0)
   \<and> createImportTx test_lib test_wallet import_100_100 =
       Inr (\<lparr>e_nonce = 3, e_gasPrice = 2, e_gasLimit = 21000,
             e_to = JStr test_address, e_value = 0, e_chainId = 1\<rparr>,
            ecsign test_lib foreign_key
              \<lparr>e_nonce = 3, e_gasPrice = 2, e_gasLimit = 21000,
               e_to = JStr test_address, e_value = 0, e_chainId = 1\<rparr>)
   \<and> createImportTx test_lib test_wallet import_100_100 \<noteq> Inl InsufficientFunds"
proof -
  have a: "Big (i_amount import_100_100) = Inr (Dec 100 0)"
    and f: "Big (i_fee import_100_100) = Inr (Dec 100 0)"
    by (simp_all add: import_100_100_def Big_100)
  have m: "Big_minus (Dec 100 0) (Dec 100 0) = Dec 0 0"
    by (simp add: Big_minus_def)
  have "createImportTx test_lib test_wallet import_100_100 =
       Inr (\<lparr>e_nonce = i_txsCount import_100_100, e_gasPrice = 2, e_gasLimit = 21000,
             e_to = i_to import_100_100, e_value = 0, e_chainId = 1\<rparr>,
            ecsign test_lib (i_privateKey import_100_100)
              \<lparr>e_nonce = i_txsCount import_100_100, e_gasPrice = 2, e_gasLimit = 21000,
               e_to = i_to import_100_100, e_value = 0, e_chainId = 1\<rparr>)"
    using a f BN_test_wallet m
    by (intro createImportTx_built)
       (simp_all add: import_100_100_def test_validTx_import foreign_key_valid)
  then show ?thesis
    using a f by (simp add: import_100_100_def)
qed

text \<open>
  C1, amended. With \<open>sendAmount = amount - fee\<close>, \<open>createImportTx\<close> fails with
  \<open>InsufficientFunds\<close> exactly when \<open>amount < fee\<close>, that is when \<open>sendAmount < 0\<close>.
  Otherwise, when \<open>sendAmount\<close> is an integer \<open>v\<close> and the wallet's \<open>gasPrice\<close> and
  \<open>gasLimit\<close> are integers: if the transaction library accepts the fields and the
  foreign private key is a valid key, it returns the transaction with value \<open>v\<close>, the
  foreign account's \<open>txsCount\<close> as nonce and the wallet's \<open>gasPrice\<close> and \<open>gasLimit\<close>,
  signed with that key; if the library refuses the fields, or the key is not valid,
  the library throws and no transaction is returned.
\<close>

theorem createImportTx_sendAmount:
  assumes "Big (i_amount opts) = Inr a" and "Big (i_fee opts) = Inr f"
  shows "(createImportTx L this opts = Inl InsufficientFunds \<longleftrightarrow> val a < val f)
       \<and> (val f \<le> val a \<longrightarrow> BN L (gasPrice this) = Inr gp \<longrightarrow> BN L (gasLimit this) = Inr gl \<longrightarrow>
            Big_minus a f = Dec v 0 \<longrightarrow>
            \<not> validTx L \<lparr>e_nonce = i_txsCount opts, e_gasPrice = gp, e_gasLimit = gl,
                         e_to = i_to opts, e_value = v, e_chainId = 1\<rparr> \<longrightarrow>
            createImportTx L this opts = Inl (LibraryError ''EthereumTx''))
       \<and> (val f \<le> val a \<longrightarrow> BN L (gasPrice this) = Inr gp \<longrightarrow> BN L (gasLimit this) = Inr gl \<longrightarrow>
            Big_minus a f = Dec v 0 \<longrightarrow>
            validTx L \<lparr>e_nonce = i_txsCount opts, e_gasPrice = gp, e_gasLimit = gl,
                       e_to = i_to opts, e_value = v, e_chainId = 1\<rparr> \<longrightarrow>
            of_int v = val a - val f
            \<and> (isValidPrivate L (i_privateKey opts) \<longrightarrow>
                 createImportTx L this opts =
                   Inr (\<lparr>e_nonce = i_txsCount opts, e_gasPrice = gp, e_gasLimit = gl,
                         e_to = i_to opts, e_value = v, e_chainId = 1\<rparr>,
                        ecsign L (i_privateKey opts)
                          \<lparr>e_nonce = i_txsCount opts, e_gasPrice = gp, e_gasLimit = gl,
                           e_to = i_to opts, e_value = v, e_chainId = 1\<rparr>))
            \<and> (\<not> isValidPrivate L (i_privateKey opts) \<longrightarrow>
                 createImportTx L this opts = Inl (LibraryError ''sign'')))"
proof (intro conjI impI iffI)
  assume "createImportTx L this opts = Inl InsufficientFunds"
  then show "val a < val f"
    using createImportTx_not_insufficient [OF assms, of L this] by (cases "val a < val f") auto
next
  assume "val a < val f"
  with assms show "createImportTx L this opts = Inl InsufficientFunds"
    by (rule createImportTx_insufficient)
next
  assume h: "Big_minus a f = Dec v 0"
  have "val (Big_minus a f) = val a - val f" by (rule val_Big_minus)
  with h show "of_int v = val a - val f" by simp
next
  assume "val f \<le> val a" "BN L (gasPrice this) = Inr gp" "BN L (gasLimit this) = Inr gl"
    "Big_minus a f = Dec v 0"
    "validTx L \<lparr>e_nonce = i_txsCount opts, e_gasPrice = gp, e_gasLimit = gl,
                       e_to = i_to opts, e_value = v, e_chainId = 1\<rparr>"
    "isValidPrivate L (i_privateKey opts)"
  with assms show "createImportTx L this opts =
                   Inr (\<lparr>e_nonce = i_txsCount opts, e_gasPrice = gp, e_gasLimit = gl,
                         e_to = i_to opts, e_value = v, e_chainId = 1\<rparr>,
                        ecsign L (i_privateKey opts)
                          \<lparr>e_nonce = i_txsCount opts, e_gasPrice = gp, e_gasLimit = gl,
                           e_to = i_to opts, e_value = v, e_chainId = 1\<rparr>)"
    by (rule createImportTx_built)
next
  assume "val f \<le> val a" "BN L (gasPrice this) = Inr gp" "BN L (gasLimit this) = Inr gl"
    "Big_minus a f = Dec v 0"
    "validTx L \<lparr>e_nonce = i_txsCount opts, e_gasPrice = gp, e_gasLimit = gl,
                       e_to = i_to opts, e_value = v, e_chainId = 1\<rparr>"
    "\<not> isValidPrivate L (i_privateKey opts)"
  with assms show "createImportTx L this opts = Inl (LibraryError ''sign'')"
    by (rule createImportTx_invalid_key)
next
  assume "val f \<le> val a" "BN L (gasPrice this) = Inr gp" "BN L (gasLimit this) = Inr gl"
    "Big_minus a f = Dec v 0"
    "\<not> validTx L \<lparr>e_nonce = i_txsCount opts, e_gasPrice = gp, e_gasLimit = gl,
                       e_to = i_to opts, e_value = v, e_chainId = 1\<rparr>"
  with assms show "createImportTx L this opts = Inl (LibraryError ''EthereumTx'')"
    by (rule createImportTx_refused)
qed

theorem createImportTx_sendAmount_witness:
  "Big (i_amount import_100_150) = Inr (Dec 100 0) \<and> Big (i_fee import_100_150) = Inr (Dec 150 0)
   \<and> val (Dec 100 0) < val (Dec 150 0)
   \<and> createImportTx test_lib test_wallet import_100_150 = Inl InsufficientFunds
   \<and> Big (i_amount import_150_100) = Inr (Dec 150 0) \<and> Big (i_fee import_150_100) = Inr (Dec 100 0)
   \<and> val (Dec 100 0) \<le> val (Dec 150 0)
   \<and> BN test_lib (gasPrice test_wallet) = Inr 2 \<and> BN test_lib (gasLimit test_wallet) = Inr 21000
   \<and> Big_minus (Dec 150 0) (Dec 100 0) = Dec 50 0
   \<and> validTx test_lib \<lparr>e_nonce = 3, e_gasPrice = 2, e_gasLimit = 21000,
                        e_to = JStr test_address, e_value = 50, e_chainId = 1\<rparr>
   \<and> isValidPrivate test_lib (i_privateKey import_150_100)
   \<and> createImportTx test_lib test_wallet import_150_100 =
       Inr (\<lparr>e_nonce = 3, e_gasPrice = 2, e_gasLimit = 21000,
             e_to = JStr test_address, e_value = 50, e_chainId = 1\<rparr>,
            ecsign test_lib foreign_key
              \<lparr>e_nonce = 3, e_gasPrice = 2, e_gasLimit = 21000,
               e_to = JStr test_address, e_value = 50, e_chainId = 1\<rparr>)
   \<and> \<not> isValidPrivate test_lib (i_privateKey import_zero_key)
   \<and> createImportTx test_lib test_wallet import_zero_key = Inl (LibraryError ''sign'')
   \<and> \<not> validTx test_lib \<lparr>e_nonce = 3, e_gasPrice = 2, e_gasLimit = 21000,
                          e_to = JStr ''0x01'', e_value = 50, e_chainId = 1\<rparr>
   \<and> createImportTx test_lib test_wallet import_short_to = Inl (LibraryError ''EthereumTx'')"
proof -
  have a1: "Big (i_amount import_100_150) = Inr (Dec 100 0)"
    and f1: "Big (i_fee import_100_150) = Inr (Dec 150 0)"
    by (simp_all add: import_100_150_def Big_100 Big_150)
  have a2: "Big (i_amount import_150_100) = Inr (Dec 150 0)"
    and f2: "Big (i_fee import_150_100) = Inr (Dec 100 0)"
    by (simp_all add: import_150_100_def Big_100 Big_150)
  have a3: "Big (i_amount import_zero_key) = Inr (Dec 150 0)"
    and f3: "Big (i_fee import_zero_key) = Inr (Dec 100 0)"
    by (simp_all add: import_zero_key_def import_150_100_def Big_100 Big_150)
  have lt: "val (Dec 100 0) < val (Dec 150 0)" by simp
  have m: "Big_minus (Dec 150 0) (Dec 100 0) = Dec 50 0"
    by (simp add: Big_minus_def)
  have ok: "validTx test_lib \<lparr>e_nonce = 3, e_gasPrice = 2, e_gasLimit = 21000,
                        e_to = JStr test_address, e_value = 50, e_chainId = 1\<rparr>"
    by (simp add: test_validTx_import)
  have k2: "isValidPrivate test_lib (i_privateKey import_150_100)"
    by (simp add: import_150_100_def foreign_key_valid)
  have k3: "\<not> isValidPrivate test_lib (i_privateKey import_zero_key)"
    by (simp add: import_zero_key_def zero_key_invalid)
  have r1: "createImportTx test_lib test_wallet import_100_150 = Inl InsufficientFunds"
    using createImportTx_sendAmount [OF a1 f1, of test_lib test_wallet] lt by simp
  have r2: "createImportTx test_lib test_wallet import_150_100 =
       Inr (\<lparr>e_nonce = 3, e_gasPrice = 2, e_gasLimit = 21000,
             e_to = JStr test_address, e_value = 50, e_chainId = 1\<rparr>,
            ecsign test_lib foreign_key
              \<lparr>e_nonce = 3, e_gasPrice = 2, e_gasLimit = 21000,
               e_to = JStr test_address, e_value = 50, e_chainId = 1\<rparr>)"
    using createImportTx_sendAmount [OF a2 f2, of test_lib test_wallet 2 21000 50] lt m
      BN_test_wallet [of test_lib] ok k2
    by (simp add: import_150_100_def)
  have r3: "createImportTx test_lib test_wallet import_zero_key = Inl (LibraryError ''sign'')"
    using createImportTx_sendAmount [OF a3 f3, of test_lib test_wallet 2 21000 50] lt m
      BN_test_wallet [of test_lib] ok k3
    by (simp add: import_zero_key_def import_150_100_def)
  have a4: "Big (i_amount import_short_to) = Inr (Dec 150 0)"
    and f4: "Big (i_fee import_short_to) = Inr (Dec 100 0)"
    by (simp_all add: import_short_to_def import_150_100_def Big_100 Big_150)
  have no: "\<not> validTx test_lib \<lparr>e_nonce = 3, e_gasPrice = 2, e_gasLimit = 21000,
                          e_to = JStr ''0x01'', e_value = 50, e_chainId = 1\<rparr>"
    by (simp add: test_lib_def test_validTx_def)
  have r4: "createImportTx test_lib test_wallet import_short_to = Inl (LibraryError ''EthereumTx'')"
    using createImportTx_sendAmount [OF a4 f4, of test_lib test_wallet 2 21000 50] lt m
      BN_test_wallet [of test_lib] no
    by (simp add: import_short_to_def import_150_100_def)
  show ?thesis
    using a1 f1 a2 f2 lt m r1 r2 r3 r4 ok no k2 k3 BN_test_wallet [of test_lib] by simp
qed

section \<open>Pending spends\<close>

lemma Big_neg_numeral:
  assumes "all_digits s" "s \<noteq> []"
  shows "Big (JStr (CHR ''-'' # s)) = Inr (Dec (- int (digits_val s)) 0)"
  using assms by (simp add: Big_def Big_parse_neg Big_parse_unsigned_int)

lemma Big_JNum: "Big (JNum n) = Inr (Dec n 0)"
proof (cases "n < 0")
  case True
  then show ?thesis
    using Big_neg_numeral [of "digits (nat (- n))"]
    by (simp add: int_str_def all_digits_digits digits_nonempty digits_val_digits Big_def)
next
  case False
  then show ?thesis
    using Big_numeral [of "digits (nat n)"]
    by (simp add: int_str_def all_digits_digits digits_nonempty digits_val_digits Big_def)
qed

lemma numeric_Big: "numeric v \<Longrightarrow> \<exists>b. Big v = Inr b \<and> val b = num v"
  by (cases "Big v") (simp_all add: numeric_def num_def)

lemma pending_step_spend:
  assumes "is_pending_spend w tx"
    and "numeric (tx_value tx)" "numeric (tx_gas tx)" "numeric (tx_gasPrice tx)"
  shows "\<exists>r. pending_step w acc tx = Inr r \<and>
             val r = val acc + (\<bar>num (tx_value tx)\<bar> + num (tx_gas tx) * num (tx_gasPrice tx))"
proof -
  from assms(2) obtain v where v: "Big (tx_value tx) = Inr v" "val v = num (tx_value tx)"
    using numeric_Big by blast
  from assms(3) obtain g where g: "Big (tx_gas tx) = Inr g" "val g = num (tx_gas tx)"
    using numeric_Big by blast
  from assms(4) obtain p where p: "Big (tx_gasPrice tx) = Inr p" "val p = num (tx_gasPrice tx)"
    using numeric_Big by blast
  show ?thesis
    using assms(1) v g p
    by (simp add: pending_step_def val_Big_plus val_Big_abs val_Big_times)
qed

lemma pending_step_other: "\<not> is_pending_spend w tx \<Longrightarrow> pending_step w acc tx = Inr acc"
  by (simp add: pending_step_def)

lemma reduce_pending_step:
  assumes "\<forall>tx\<in>set txs. is_pending_spend w tx \<longrightarrow>
             numeric (tx_value tx) \<and> numeric (tx_gas tx) \<and> numeric (tx_gasPrice tx)"
  shows "\<exists>r. reduce (pending_step w) acc txs = Inr r \<and>
             val r = val acc + (\<Sum>tx\<leftarrow>filter (is_pending_spend w) txs.
                                  \<bar>num (tx_value tx)\<bar> + num (tx_gas tx) * num (tx_gasPrice tx))"
  using assms
proof (induction txs arbitrary: acc)
  case Nil
  show ?case by simp
next
  case (Cons tx txs)
  show ?case
  proof (cases "is_pending_spend w tx")
    case True
    with Cons.prems obtain r where
      r: "pending_step w acc tx = Inr r"
         "val r = val acc + (\<bar>num (tx_value tx)\<bar> + num (tx_gas tx) * num (tx_gasPrice tx))"
      using pending_step_spend [of w tx acc] by auto
    from Cons.prems have "\<forall>tx\<in>set txs. is_pending_spend w tx \<longrightarrow>
             numeric (tx_value tx) \<and> numeric (tx_gas tx) \<and> numeric (tx_gasPrice tx)"
      by simp
    from Cons.IH [OF this, of r] r True show ?thesis
      by (auto simp: algebra_simps)
  next
    case False
    from Cons.prems have "\<forall>tx\<in>set txs. is_pending_spend w tx \<longrightarrow>
             numeric (tx_value tx) \<and> numeric (tx_gas tx) \<and> numeric (tx_gasPrice tx)"
      by simp
    from Cons.IH [OF this, of acc] False show ?thesis
      by (simp add: pending_step_other)
  qed
qed

lemma num_pending_example:
  "num (JStr ''-50'') = - 50" "num (JNum 21000) = 21000" "num (JStr ''1'') = 1"
  "numeric (JStr ''-50'')" "numeric (JNum 21000)" "numeric (JStr ''1'')"
proof -
  have a: "Big (JStr ''-50'') = Inr (Dec (- 50) 0)"
    using Big_neg_numeral [of "''50''"]
    by (simp add: all_digits_def is_digit_def digits_val_def digit_val_def)
  have b: "Big (JStr ''1'') = Inr (Dec 1 0)"
    using Big_numeral [of "''1''"]
    by (simp add: all_digits_def is_digit_def digits_val_def digit_val_def)
  show "num (JStr ''-50'') = - 50" "num (JNum 21000) = 21000" "num (JStr ''1'') = 1"
    "numeric (JStr ''-50'')" "numeric (JNum 21000)" "numeric (JStr ''1'')"
    by (simp_all add: num_def numeric_def a b Big_JNum)
qed

text \<open>
  C4. \<open>getPendingSpends\<close> returns a decimal whose value is exactly the sum, over the
  history entries whose confirmations are below \<open>minConf\<close> and whose \<open>from\<close> is the
  wallet's address, of the absolute value of the entry's value plus its gas times its
  gas price; all other entries contribute nothing. The entries that are summed must
  hold numerals in these three fields (otherwise big.js throws).
\<close>

theorem getPendingSpends_sum:
  assumes "\<forall>tx\<in>set (historyTxs w). is_pending_spend w tx \<longrightarrow>
             numeric (tx_value tx) \<and> numeric (tx_gas tx) \<and> numeric (tx_gasPrice tx)"
  shows "\<exists>r. getPendingSpends w = Inr r \<and>
             val r = (\<Sum>tx\<leftarrow>filter (\<lambda>tx. (\<exists>c. tx_confirmations tx = Some c \<and> c < minConf w)
                                         \<and> tx_from tx = JStr (addressString w)) (historyTxs w).
                        \<bar>num (tx_value tx)\<bar> + num (tx_gas tx) * num (tx_gasPrice tx))"
proof -
  have eq: "is_pending_spend w = (\<lambda>tx. (\<exists>c. tx_confirmations tx = Some c \<and> c < minConf w)
                                         \<and> tx_from tx = JStr (addressString w))"
    by (auto simp: is_pending_spend_def fun_eq_iff split: option.splits)
  from reduce_pending_step [OF assms, of "Dec 0 0"] show ?thesis
    by (simp add: getPendingSpends_def eq)
qed

theorem getPendingSpends_sum_witness:
  "is_pending_spend pending_wallet (historyTxs pending_wallet ! 0)
   \<and> \<not> is_pending_spend pending_wallet (historyTxs pending_wallet ! 1)
   \<and> \<not> is_pending_spend pending_wallet (historyTxs pending_wallet ! 2)
   \<and> numeric (tx_value (historyTxs pending_wallet ! 0))
   \<and> numeric (tx_gas (historyTxs pending_wallet ! 0))
   \<and> numeric (tx_gasPrice (historyTxs pending_wallet ! 0))
   \<and> (\<exists>r. getPendingSpends pending_wallet = Inr r \<and> val r = 50 + 21000)"
proof -
  have h: "\<forall>tx\<in>set (historyTxs pending_wallet). is_pending_spend pending_wallet tx \<longrightarrow>
       numeric (tx_value tx) \<and> numeric (tx_gas tx) \<and> numeric (tx_gasPrice tx)"
    by (simp add: pending_wallet_def test_wallet_def is_pending_spend_def num_pending_example)
  have p: "is_pending_spend pending_wallet (historyTxs pending_wallet ! 0)"
    "\<not> is_pending_spend pending_wallet (historyTxs pending_wallet ! 1)"
    "\<not> is_pending_spend pending_wallet (historyTxs pending_wallet ! 2)"
    "numeric (tx_value (historyTxs pending_wallet ! 0))"
    "numeric (tx_gas (historyTxs pending_wallet ! 0))"
    "numeric (tx_gasPrice (historyTxs pending_wallet ! 0))"
    by (simp_all add: pending_wallet_def test_wallet_def is_pending_spend_def num_pending_example)
  have "\<exists>r. getPendingSpends pending_wallet = Inr r \<and> val r = 50 + 21000"
    using getPendingSpends_sum [OF h]
    by (simp add: pending_wallet_def test_wallet_def num_pending_example)
  with p show ?thesis by simp
qed

section \<open>History normalisation\<close>

lemmas Big_eval = Big_def Big_parse_def Big_parse_unsigned_def split_at_def is_e_def is_dot_def
  all_digits_def is_digit_def digits_val_def digit_val_def parse_exp_def

lemma Big_minus_prefix:
  assumes "Big v = Inr b" "hd (ToString v) \<noteq> CHR ''-''"
  shows "Big (str_concat ''-'' v) = Inr (Big_neg b)"
proof -
  from assms(2) have "Big_parse (ToString v) = Big_parse_unsigned (ToString v)"
    by (simp add: Big_parse_def)
  with assms(1) have "Big_parse_unsigned (ToString v) = Some b"
    by (simp add: Big_def split: option.splits)
  then show ?thesis
    by (simp add: Big_def str_concat_def Big_parse_neg)
qed

lemma transformTx_reported:
  assumes "truthy (tx_gasUsed tx)" "Big (tx_gasUsed tx) = Inr g" "Big (tx_gasPrice tx) = Inr p"
  shows "transformTx address tx =
         Inr (if tx_from tx = JStr address
              then tx\<lparr>tx_fee := JStr (toFixed (Big_times g p)),
                      tx_value := str_concat ''-'' (tx_value tx)\<rparr>
              else tx\<lparr>tx_fee := JStr (toFixed (Big_times g p))\<rparr>)"
  using assms by (simp add: transformTx_def Let_def)

lemma transformTx_unreported:
  assumes "\<not> truthy (tx_gasUsed tx)"
  shows "transformTx address tx =
         Inr (if tx_from tx = JStr address
              then tx\<lparr>tx_fee := JNum (- 1), tx_value := str_concat ''-'' (tx_value tx)\<rparr>
              else tx\<lparr>tx_fee := JNum (- 1)\<rparr>)"
  using assms by (simp add: transformTx_def Let_def)

lemma transformTx_value:
  assumes "transformTx address tx = Inr tx'"
  shows "tx_value tx' = (if tx_from tx = JStr address then str_concat ''-'' (tx_value tx)
                         else tx_value tx)"
    and "tx_from tx' = tx_from tx" and "tx_to tx' = tx_to tx" and "tx_gas tx' = tx_gas tx"
    and "tx_gasPrice tx' = tx_gasPrice tx" and "tx_gasUsed tx' = tx_gasUsed tx"
    and "tx_confirmations tx' = tx_confirmations tx"
proof -
  have "\<exists>fee. tx' = (if tx_from tx = JStr address
                           then tx\<lparr>tx_fee := fee, tx_value := str_concat ''-'' (tx_value tx)\<rparr>
                           else tx\<lparr>tx_fee := fee\<rparr>)"
  proof (cases "truthy (tx_gasUsed tx)")
    case True
    with assms obtain g p where "Big (tx_gasUsed tx) = Inr g" "Big (tx_gasPrice tx) = Inr p"
      by (cases "Big (tx_gasUsed tx)"; cases "Big (tx_gasPrice tx)") (auto simp: transformTx_def)
    with True assms have "tx' = (if tx_from tx = JStr address
              then tx\<lparr>tx_fee := JStr (toFixed (Big_times g p)),
                      tx_value := str_concat ''-'' (tx_value tx)\<rparr>
              else tx\<lparr>tx_fee := JStr (toFixed (Big_times g p))\<rparr>)"
      by (simp add: transformTx_reported)
    then show ?thesis by blast
  next
    case False
    with assms have "tx' = (if tx_from tx = JStr address
              then tx\<lparr>tx_fee := JNum (- 1), tx_value := str_concat ''-'' (tx_value tx)\<rparr>
              else tx\<lparr>tx_fee := JNum (- 1)\<rparr>)"
      by (simp add: transformTx_unreported)
    then show ?thesis by blast
  qed
  then obtain fee where "tx' = (if tx_from tx = JStr address
                           then tx\<lparr>tx_fee := fee, tx_value := str_concat ''-'' (tx_value tx)\<rparr>
                           else tx\<lparr>tx_fee := fee\<rparr>)"
    by blast
  then show "tx_value tx' = (if tx_from tx = JStr address then str_concat ''-'' (tx_value tx)
                         else tx_value tx)"
    and "tx_from tx' = tx_from tx" and "tx_to tx' = tx_to tx" and "tx_gas tx' = tx_gas tx"
    and "tx_gasPrice tx' = tx_gasPrice tx" and "tx_gasUsed tx' = tx_gasUsed tx"
    and "tx_confirmations tx' = tx_confirmations tx"
    by simp_all
qed

lemma falsy_cases: "\<not> truthy v \<longleftrightarrow> v = JUndefined \<or> v = JNull \<or> v = JNum 0 \<or> v = JStr []"
  by (cases v) auto

lemma num_minus_one: "Big (JNum (- 1)) = Inr (Dec (- 1) 0)"
  by (rule Big_JNum)

lemma mapE_iff: "mapE f xs = Inr ys \<longleftrightarrow> list_all2 (\<lambda>x y. f x = Inr y) xs ys"
proof (induction xs arbitrary: ys)
  case Nil
  show ?case by auto
next
  case (Cons x xs)
  show ?case
    by (cases ys) (auto simp: bindE_Inr Cons.IH)
qed

lemma transformTxs_iff:
  "transformTxs address txs = Inr txs' \<longleftrightarrow>
   list_all2 (\<lambda>tx tx'. transformTx address tx = Inr tx') txs txs'"
  by (simp add: transformTxs_def mapE_iff)

lemma mapE_first_error:
  "list_all (\<lambda>x. \<exists>y. f x = Inr y) xs \<Longrightarrow> f x = Inl e \<Longrightarrow> mapE f (xs @ x # rest) = Inl e"
  by (induction xs) auto

lemma transformTx_raw_send: "transformTx test_address raw_send = Inr normalized_send"
  by (simp add: transformTx_def raw_send_def normalized_send_def str_concat_def)

lemma transformTx_raw_receive: "transformTx test_address raw_receive = Inr normalized_receive"
  by (simp add: transformTx_def raw_receive_def normalized_receive_def Big_eval toFixed_42000)

text \<open>
  C2. For a raw transaction, \<open>transformTx\<close> sets \<open>fee\<close> to the numeral of
  \<open>gasUsed * gasPrice\<close> whenever the transaction reports its gas used, and otherwise to
  the number \<open>-1\<close>, which is not \<open>0\<close>. The code tests \<^verbatim>\<open>tx.gasUsed\<close> for truthiness: the
  gas used is reported when the field is present and is neither the number \<open>0\<close> nor the
  empty string (\<open>falsy_cases\<close>). The value is negated exactly when \<open>from\<close> is the
  wallet's address: the code prefixes its text with a minus sign, which negates the
  number it stands for because the value of a raw transaction carries no sign; when
  \<open>from\<close> is another address the value is left as it is. No other field that the wallet
  reads is changed, so the direction of the transfer is in the sign of the value only.
  On an array \<open>transformTxs\<close> applies this to every entry, in order: it returns the list
  \<open>txs'\<close> exactly when \<open>txs'\<close> has the length of \<open>txs\<close> and each of its entries is the
  \<open>transformTx\<close> of the entry of \<open>txs\<close> at the same place, and it throws the error of the
  first entry on which \<open>transformTx\<close> throws.
\<close>

theorem transformTx_normalizes:
  "(truthy (tx_gasUsed tx) \<longrightarrow> Big (tx_gasUsed tx) = Inr g \<longrightarrow> Big (tx_gasPrice tx) = Inr p \<longrightarrow>
      (\<exists>tx'. transformTx address tx = Inr tx' \<and> tx_fee tx' = JStr (toFixed (Big_times g p))
             \<and> Big (tx_fee tx') = Inr (Big_times g p) \<and> num (tx_fee tx') = val g * val p))
   \<and> (\<not> truthy (tx_gasUsed tx) \<longrightarrow>
      (\<exists>tx'. transformTx address tx = Inr tx' \<and> tx_fee tx' = JNum (- 1)
             \<and> tx_fee tx' \<noteq> JNum 0 \<and> num (tx_fee tx') \<noteq> 0))
   \<and> (transformTx address tx = Inr tx1 \<longrightarrow> tx_from tx = JStr address \<longrightarrow>
        Big (tx_value tx) = Inr v \<longrightarrow> hd (ToString (tx_value tx)) \<noteq> CHR ''-'' \<longrightarrow>
        tx_value tx1 = JStr (CHR ''-'' # ToString (tx_value tx))
        \<and> Big (tx_value tx1) = Inr (Big_neg v) \<and> num (tx_value tx1) = - num (tx_value tx))
   \<and> (transformTx address tx = Inr tx1 \<longrightarrow> tx_from tx \<noteq> JStr address \<longrightarrow>
        tx_value tx1 = tx_value tx)
   \<and> (transformTx address tx = Inr tx1 \<longrightarrow>
        tx_from tx1 = tx_from tx \<and> tx_to tx1 = tx_to tx \<and> tx_gas tx1 = tx_gas tx
        \<and> tx_gasPrice tx1 = tx_gasPrice tx \<and> tx_gasUsed tx1 = tx_gasUsed tx
        \<and> tx_confirmations tx1 = tx_confirmations tx)
   \<and> (transformTxs address txs = Inr txs' \<longleftrightarrow>
        list_all2 (\<lambda>t t'. transformTx address t = Inr t') txs txs')
   \<and> (list_all (\<lambda>t. \<exists>t'. transformTx address t = Inr t') ts \<longrightarrow>
        transformTx address bad = Inl e \<longrightarrow>
        transformTxs address (ts @ bad # rest) = Inl e)"
proof (intro conjI impI)
  show "transformTxs address txs = Inr txs' \<longleftrightarrow>
        list_all2 (\<lambda>t t'. transformTx address t = Inr t') txs txs'"
    by (rule transformTxs_iff)
next
  assume "list_all (\<lambda>t. \<exists>t'. transformTx address t = Inr t') ts"
    "transformTx address bad = Inl e"
  then show "transformTxs address (ts @ bad # rest) = Inl e"
    unfolding transformTxs_def by (rule mapE_first_error)
next
  assume a: "truthy (tx_gasUsed tx)" "Big (tx_gasUsed tx) = Inr g" "Big (tx_gasPrice tx) = Inr p"
  have "Big (JStr (toFixed (Big_times g p))) = Inr (Big_times g p)"
    by (simp add: Big_toFixed normal_Big_times)
  then show "\<exists>tx'. transformTx address tx = Inr tx' \<and> tx_fee tx' = JStr (toFixed (Big_times g p))
             \<and> Big (tx_fee tx') = Inr (Big_times g p) \<and> num (tx_fee tx') = val g * val p"
    using a by (simp add: transformTx_reported num_def val_Big_times)
next
  assume "\<not> truthy (tx_gasUsed tx)"
  then show "\<exists>tx'. transformTx address tx = Inr tx' \<and> tx_fee tx' = JNum (- 1)
             \<and> tx_fee tx' \<noteq> JNum 0 \<and> num (tx_fee tx') \<noteq> 0"
    by (simp add: transformTx_unreported num_def num_minus_one)
next
  assume a: "transformTx address tx = Inr tx1" "tx_from tx = JStr address"
    "Big (tx_value tx) = Inr v" "hd (ToString (tx_value tx)) \<noteq> CHR ''-''"
  from a(1,2) have e: "tx_value tx1 = str_concat ''-'' (tx_value tx)"
    by (simp add: transformTx_value)
  then show "tx_value tx1 = JStr (CHR ''-'' # ToString (tx_value tx))"
    by (simp add: str_concat_def)
  from a(3,4) show "Big (tx_value tx1) = Inr (Big_neg v)"
    by (simp add: e Big_minus_prefix)
  with a(3) show "num (tx_value tx1) = - num (tx_value tx)"
    by (simp add: num_def val_Big_neg)
next
  assume "transformTx address tx = Inr tx1" "tx_from tx \<noteq> JStr address"
  then show "tx_value tx1 = tx_value tx" by (simp add: transformTx_value)
next
  assume a: "transformTx address tx = Inr tx1"
  from transformTx_value(2-7) [OF a]
  show "tx_from tx1 = tx_from tx" "tx_to tx1 = tx_to tx" "tx_gas tx1 = tx_gas tx"
    "tx_gasPrice tx1 = tx_gasPrice tx" "tx_gasUsed tx1 = tx_gasUsed tx"
    "tx_confirmations tx1 = tx_confirmations tx"
    by simp_all
qed

theorem transformTx_normalizes_witness:
  "truthy (tx_gasUsed raw_receive)
   \<and> Big (tx_gasUsed raw_receive) = Inr (Dec 21000 0)
   \<and> Big (tx_gasPrice raw_receive) = Inr (Dec 2 0)
   \<and> tx_from raw_receive \<noteq> JStr test_address
   \<and> transformTx test_address raw_receive = Inr normalized_receive
   \<and> num (tx_fee normalized_receive) = 21000 * 2
   \<and> tx_value normalized_receive = tx_value raw_receive
   \<and> \<not> truthy (tx_gasUsed raw_send)
   \<and> tx_from raw_send = JStr test_address
   \<and> Big (tx_value raw_send) = Inr (Dec 30 0)
   \<and> hd (ToString (tx_value raw_send)) \<noteq> CHR ''-''
   \<and> transformTx test_address raw_send = Inr normalized_send
   \<and> tx_fee normalized_send = JNum (- 1)
   \<and> tx_value normalized_send = JStr ''-30''
   \<and> Big (tx_value normalized_send) = Inr (Dec (- 30) 0)
   \<and> tx_confirmations normalized_send = tx_confirmations raw_send
   \<and> transformTxs test_address [raw_send, raw_receive] = Inr [normalized_send, normalized_receive]
   \<and> transformTx test_address (raw_receive\<lparr>tx_gasUsed := JStr ''abc''\<rparr>) = Inl NotANumber
   \<and> transformTxs test_address
        [raw_send, raw_receive\<lparr>tx_gasUsed := JStr ''abc''\<rparr>, raw_receive] = Inl NotANumber"
proof -
  have h1: "truthy (tx_gasUsed raw_receive)" "Big (tx_gasUsed raw_receive) = Inr (Dec 21000 0)"
    "Big (tx_gasPrice raw_receive) = Inr (Dec 2 0)" "tx_from raw_receive \<noteq> JStr test_address"
    by (simp_all add: raw_receive_def Big_eval)
  have h2: "\<not> truthy (tx_gasUsed raw_send)" "tx_from raw_send = JStr test_address"
    "Big (tx_value raw_send) = Inr (Dec 30 0)" "hd (ToString (tx_value raw_send)) \<noteq> CHR ''-''"
    by (simp_all add: raw_send_def Big_eval)
  note r = transformTx_normalizes [where tx = raw_receive and g = "Dec 21000 0" and p = "Dec 2 0"
      and address = "test_address" and ?tx1.0 = normalized_receive and v = "Dec 12 0"
      and txs = "[]" and txs' = "[]" and ts = "[]" and bad = raw_receive and e = NotANumber
      and rest = "[]"]
  note s = transformTx_normalizes [where tx = raw_send and address = "test_address"
      and ?tx1.0 = normalized_send and v = "Dec 30 0" and g = "Dec 0 0" and p = "Dec 0 0"
      and txs = "[]" and txs' = "[]" and ts = "[]" and bad = raw_receive and e = NotANumber
      and rest = "[]"]
  have "\<exists>tx'. transformTx test_address raw_receive = Inr tx'
          \<and> num (tx_fee tx') = val (Dec 21000 0) * val (Dec 2 0)"
    using r h1 by blast
  then have "num (tx_fee normalized_receive) = val (Dec 21000 0) * val (Dec 2 0)"
    by (simp add: transformTx_raw_receive)
  then have c1: "num (tx_fee normalized_receive) = 21000 * 2"
    by simp
  have c2: "tx_value normalized_receive = tx_value raw_receive"
    using r h1 transformTx_raw_receive by blast
  have c3: "tx_fee normalized_send = JNum (- 1)"
    using s h2 transformTx_raw_send by auto
  have "tx_value normalized_send = JStr (CHR ''-'' # ToString (tx_value raw_send))"
    and "Big (tx_value normalized_send) = Inr (Big_neg (Dec 30 0))"
    using s h2 transformTx_raw_send by auto
  then have c4: "tx_value normalized_send = JStr ''-30''"
    "Big (tx_value normalized_send) = Inr (Dec (- 30) 0)"
    by (simp_all add: raw_send_def)
  have c5: "tx_confirmations normalized_send = tx_confirmations raw_send"
    using s transformTx_raw_send by blast
  have "list_all2 (\<lambda>t t'. transformTx test_address t = Inr t')
          [raw_send, raw_receive] [normalized_send, normalized_receive]"
    by (simp add: transformTx_raw_send transformTx_raw_receive)
  then have c6: "transformTxs test_address [raw_send, raw_receive]
      = Inr [normalized_send, normalized_receive]"
    using transformTx_normalizes [where address = test_address and txs = "[raw_send, raw_receive]"
        and txs' = "[normalized_send, normalized_receive]"]
    by blast
  have b: "transformTx test_address (raw_receive\<lparr>tx_gasUsed := JStr ''abc''\<rparr>) = Inl NotANumber"
    by (simp add: transformTx_def raw_receive_def Big_eval)
  have "list_all (\<lambda>t. \<exists>t'. transformTx test_address t = Inr t') [raw_send]"
    by (simp add: transformTx_raw_send)
  then have "transformTxs test_address
        ([raw_send] @ raw_receive\<lparr>tx_gasUsed := JStr ''abc''\<rparr> # [raw_receive]) = Inl NotANumber"
    using transformTx_normalizes [where address = test_address and ts = "[raw_send]"
        and bad = "raw_receive\<lparr>tx_gasUsed := JStr ''abc''\<rparr>" and e = NotANumber
        and rest = "[raw_receive]"] b
    by blast
  then have c7: "transformTxs test_address
        [raw_send, raw_receive\<lparr>tx_gasUsed := JStr ''abc''\<rparr>, raw_receive] = Inl NotANumber"
    by simp
  show ?thesis
    using h1 h2 c1 c2 c3 c4 c5 c6 c7 b transformTx_raw_send transformTx_raw_receive by simp
qed

section \<open>Recording and sending transactions\<close>

lemma processTx_fetch_failed:
  "transactions_get R txId (addressString w) = Inl e \<Longrightarrow> processTx R w txId = (Inl e, w)"
  by (simp add: processTx_def)

lemma processTx_success:
  assumes "transactions_get R txId (addressString w) = Inr raw"
    and "transformTx (addressString w) raw = Inr h"
    and "Big (balance w) = Inr b" and "Big (tx_value h) = Inr v"
    and "Big (tx_gas h) = Inr g" and "Big (tx_gasPrice h) = Inr p"
  shows "processTx R w txId =
         (Inr h, w\<lparr>balance := JStr (toFixed (Big_minus (Big_plus b v) (Big_times g p))),
                   txsCount := (if tx_from h = JStr (addressString w)
                                then txsCount w + 1 else txsCount w),
                   historyTxs := h # historyTxs w\<rparr>)"
  using assms by (simp add: processTx_def)

lemma processTx_error_state: "processTx R w txId = (Inl e, w') \<Longrightarrow> w' = w"
  by (auto simp: processTx_def split: sum.splits prod.splits)

lemma sendTx_error_state: "sendTx R L w tx = (Inl e, w') \<Longrightarrow> w' = w"
  by (auto simp: sendTx_def Let_def split: sum.splits dest: processTx_error_state)

lemma processTx_test_send:
  "transactions_get test_remote ''0xabc'' (addressString test_wallet) = Inr raw_send"
  "transformTx (addressString test_wallet) raw_send = Inr normalized_send"
  "Big (balance test_wallet) = Inr (Dec 1000000 0)"
  "Big (tx_value normalized_send) = Inr (Dec (- 30) 0)"
  "Big (tx_gas normalized_send) = Inr (Dec 21000 0)"
  "Big (tx_gasPrice normalized_send) = Inr (Dec 2 0)"
  "tx_from raw_send = JStr (addressString test_wallet)"
proof -
  show "transformTx (addressString test_wallet) raw_send = Inr normalized_send"
    by (simp add: test_wallet_def transformTx_raw_send)
qed (simp_all add: test_remote_def test_wallet_def normalized_send_def raw_send_def Big_eval)

lemma processTx_test_receive:
  "transactions_get test_remote ''0xdef'' (addressString test_wallet) = Inr raw_receive"
  "transformTx (addressString test_wallet) raw_receive = Inr normalized_receive"
  "Big (tx_value normalized_receive) = Inr (Dec 12 0)"
  "Big (tx_gas normalized_receive) = Inr (Dec 21000 0)"
  "Big (tx_gasPrice normalized_receive) = Inr (Dec 2 0)"
  "tx_from raw_receive \<noteq> JStr (addressString test_wallet)"
proof -
  show "transformTx (addressString test_wallet) raw_receive = Inr normalized_receive"
    by (simp add: test_wallet_def transformTx_raw_receive)
qed (simp_all add: test_remote_def test_wallet_def normalized_receive_def raw_receive_def Big_eval)

lemma toHex_empty: "''0x'' @ toHex (rlp_encode test_lib unsendable_tx) = ''0x''"
  by (simp add: test_lib_def unsendable_tx_def)

lemma toHex_456: "''0x'' @ toHex (rlp_encode test_lib unfetchable_tx) = ''0x040506''"
  by (simp add: test_lib_def unfetchable_tx_def hex_digit_def char_of_eq_iff)

text \<open>
  C3. When the transaction is fetched and its fields and the balance are numerals,
  \<open>processTx\<close> sets the balance to the numeral of \<open>balance + value - maxFee\<close>, where
  \<open>value\<close> is the value of the normalised entry (already signed: it is minus the raw
  value when the wallet is the sender) and \<open>maxFee = gas * gasPrice\<close>; it adds one to
  \<open>txsCount\<close> when the sender of the transaction is the wallet's address and leaves it
  unchanged otherwise; it puts the normalised entry at the front of \<open>historyTxs\<close>; and
  it changes no other field.
\<close>

theorem processTx_records:
  assumes "transactions_get R txId (addressString w) = Inr raw"
    and "transformTx (addressString w) raw = Inr h"
    and "Big (balance w) = Inr b" and "Big (tx_value h) = Inr v"
    and "Big (tx_gas h) = Inr g" and "Big (tx_gasPrice h) = Inr p"
  shows "\<exists>w'. processTx R w txId = (Inr h, w')
           \<and> num (balance w') = val b + val v - val g * val p
           \<and> balance w' = JStr (toFixed (Big_minus (Big_plus b v) (Big_times g p)))
           \<and> (tx_from raw = JStr (addressString w) \<longrightarrow> txsCount w' = txsCount w + 1)
           \<and> (tx_from raw \<noteq> JStr (addressString w) \<longrightarrow> txsCount w' = txsCount w)
           \<and> historyTxs w' = h # historyTxs w
           \<and> w' = w\<lparr>balance := balance w', txsCount := txsCount w', historyTxs := historyTxs w'\<rparr>
           \<and> (tx_from raw = JStr (addressString w) \<longrightarrow> Big (tx_value raw) = Inr v0 \<longrightarrow>
                hd (ToString (tx_value raw)) \<noteq> CHR ''-'' \<longrightarrow> val v = - val v0)"
proof -
  define w' where "w' = w\<lparr>balance := JStr (toFixed (Big_minus (Big_plus b v) (Big_times g p))),
                   txsCount := (if tx_from h = JStr (addressString w)
                                then txsCount w + 1 else txsCount w),
                   historyTxs := h # historyTxs w\<rparr>"
  have p: "processTx R w txId = (Inr h, w')"
    unfolding w'_def using assms by (rule processTx_success)
  have f: "tx_from h = tx_from raw"
    using assms(2) by (rule transformTx_value)
  have "Big (balance w') = Inr (Big_minus (Big_plus b v) (Big_times g p))"
    by (simp add: w'_def Big_toFixed normal_Big_minus)
  then have n: "num (balance w') = val b + val v - val g * val p"
    by (simp add: num_def val_Big_minus val_Big_plus val_Big_times)
  have s: "val v = - val v0"
    if "tx_from raw = JStr (addressString w)" "Big (tx_value raw) = Inr v0"
       "hd (ToString (tx_value raw)) \<noteq> CHR ''-''"
  proof -
    have "tx_value h = str_concat ''-'' (tx_value raw)"
      using assms(2) that(1) by (simp add: transformTx_value)
    then have "Big (tx_value h) = Inr (Big_neg v0)"
      using that by (simp add: Big_minus_prefix)
    with assms(4) have "v = Big_neg v0" by simp
    then show ?thesis by (simp add: val_Big_neg)
  qed
  show ?thesis
    using p n f s by (intro exI [of _ w']) (simp add: w'_def)
qed

theorem processTx_records_witness:
  "transactions_get test_remote ''0xabc'' (addressString test_wallet) = Inr raw_send
   \<and> transformTx (addressString test_wallet) raw_send = Inr normalized_send
   \<and> Big (balance test_wallet) = Inr (Dec 1000000 0)
   \<and> Big (tx_value normalized_send) = Inr (Dec (- 30) 0)
   \<and> Big (tx_gas normalized_send) = Inr (Dec 21000 0)
   \<and> Big (tx_gasPrice normalized_send) = Inr (Dec 2 0)
   \<and> tx_from raw_send = JStr (addressString test_wallet)
   \<and> (\<exists>w'. processTx test_remote test_wallet ''0xabc'' = (Inr normalized_send, w')
          \<and> num (balance w') = 1000000 - 30 - 21000 * 2
          \<and> txsCount w' = txsCount test_wallet + 1
          \<and> historyTxs w' = normalized_send # historyTxs test_wallet)
   \<and> transactions_get test_remote ''0xdef'' (addressString test_wallet) = Inr raw_receive
   \<and> transformTx (addressString test_wallet) raw_receive = Inr normalized_receive
   \<and> Big (tx_value normalized_receive) = Inr (Dec 12 0)
   \<and> tx_from raw_receive \<noteq> JStr (addressString test_wallet)
   \<and> (\<exists>w'. processTx test_remote test_wallet ''0xdef'' = (Inr normalized_receive, w')
          \<and> num (balance w') = 1000000 + 12 - 21000 * 2
          \<and> txsCount w' = txsCount test_wallet
          \<and> historyTxs w' = normalized_receive # historyTxs test_wallet)"
proof -
  note s = processTx_test_send
  note r = processTx_test_receive
  have a: "\<exists>w'. processTx test_remote test_wallet ''0xabc'' = (Inr normalized_send, w')
          \<and> num (balance w') = 1000000 - 30 - 21000 * 2
          \<and> txsCount w' = txsCount test_wallet + 1
          \<and> historyTxs w' = normalized_send # historyTxs test_wallet"
    using processTx_records [OF s(1-6)] s(7) by auto
  have b: "\<exists>w'. processTx test_remote test_wallet ''0xdef'' = (Inr normalized_receive, w')
          \<and> num (balance w') = 1000000 + 12 - 21000 * 2
          \<and> txsCount w' = txsCount test_wallet
          \<and> historyTxs w' = normalized_receive # historyTxs test_wallet"
    using processTx_records [OF r(1,2) s(3) r(3-5)] r(6) by auto
  show ?thesis
    using s r a b by simp
qed

text \<open>
  C7. If \<open>sendTx\<close> fails at the broadcast, or the fetch of the broadcast transaction
  fails, the callback receives that very error and the wallet is as it was before the
  call; in fact whenever \<open>sendTx\<close> reports an error, whatever its origin, the balance,
  \<open>txsCount\<close>, \<open>historyTxs\<close> and all other fields of the wallet are unchanged.
\<close>

theorem sendTx_failure_state:
  "(transactions_propagate R (''0x'' @ toHex (rlp_encode L tx)) = Inl e \<longrightarrow>
      sendTx R L w tx = (Inl e, w))
   \<and> (transactions_propagate R (''0x'' @ toHex (rlp_encode L tx)) = Inr txId \<longrightarrow>
      transactions_get R txId (addressString w) = Inl e \<longrightarrow>
      sendTx R L w tx = (Inl e, w))
   \<and> (sendTx R L w tx = (Inl e, w') \<longrightarrow>
      balance w' = balance w \<and> txsCount w' = txsCount w \<and> historyTxs w' = historyTxs w
      \<and> w' = w)"
proof (intro conjI impI)
  assume "transactions_propagate R (''0x'' @ toHex (rlp_encode L tx)) = Inl e"
  then show "sendTx R L w tx = (Inl e, w)"
    by (simp add: sendTx_def)
next
  assume "transactions_propagate R (''0x'' @ toHex (rlp_encode L tx)) = Inr txId"
    and "transactions_get R txId (addressString w) = Inl e"
  then show "sendTx R L w tx = (Inl e, w)"
    by (simp add: sendTx_def processTx_fetch_failed)
next
  assume "sendTx R L w tx = (Inl e, w')"
  then have "w' = w" by (rule sendTx_error_state)
  then show "balance w' = balance w" "txsCount w' = txsCount w" "historyTxs w' = historyTxs w"
    "w' = w"
    by simp_all
qed

theorem sendTx_failure_state_witness:
  "transactions_propagate test_remote (''0x'' @ toHex (rlp_encode test_lib unsendable_tx))
     = Inl (RemoteFailure ''empty'')
   \<and> sendTx test_remote test_lib test_wallet unsendable_tx = (Inl (RemoteFailure ''empty''), test_wallet)
   \<and> transactions_propagate test_remote (''0x'' @ toHex (rlp_encode test_lib unfetchable_tx))
     = Inr ''0x999''
   \<and> transactions_get test_remote ''0x999'' (addressString test_wallet)
     = Inl (RemoteFailure ''not found'')
   \<and> sendTx test_remote test_lib test_wallet unfetchable_tx
     = (Inl (RemoteFailure ''not found''), test_wallet)
   \<and> balance (snd (sendTx test_remote test_lib test_wallet unfetchable_tx)) = balance test_wallet"
proof -
  have p1: "transactions_propagate test_remote (''0x'' @ toHex (rlp_encode test_lib unsendable_tx))
     = Inl (RemoteFailure ''empty'')"
    by (simp only: toHex_empty) (simp add: test_remote_def)
  have p2: "transactions_propagate test_remote (''0x'' @ toHex (rlp_encode test_lib unfetchable_tx))
     = Inr ''0x999''"
    by (simp only: toHex_456) (simp add: test_remote_def)
  have g: "transactions_get test_remote ''0x999'' (addressString test_wallet)
     = Inl (RemoteFailure ''not found'')"
    by (simp add: test_remote_def)
  have r1: "sendTx test_remote test_lib test_wallet unsendable_tx
     = (Inl (RemoteFailure ''empty''), test_wallet)"
    using sendTx_failure_state [of test_remote test_lib unsendable_tx "RemoteFailure ''empty''"
        test_wallet] p1 by blast
  have r2: "sendTx test_remote test_lib test_wallet unfetchable_tx
     = (Inl (RemoteFailure ''not found''), test_wallet)"
    using sendTx_failure_state [of test_remote test_lib unfetchable_tx "RemoteFailure ''not found''"
        test_wallet "''0x999''"] p2 g by blast
  have r3: "balance (snd (sendTx test_remote test_lib test_wallet unfetchable_tx)) = balance test_wallet"
    using sendTx_failure_state [of test_remote test_lib unfetchable_tx "RemoteFailure ''not found''"
        test_wallet "''0x999''" test_wallet] r2 by simp
  show ?thesis
    using p1 p2 g r1 r2 r3 by simp
qed

section \<open>Construction\<close>

lemma rejection_Some: "rejection r = Some e \<longleftrightarrow> r = Inl e" "Some e = rejection r \<longleftrightarrow> r = Inl e"
  by (cases r; auto)+

lemma rejection_None: "rejection r = None \<longleftrightarrow> (\<exists>x. r = Inr x)"
  by (cases r) auto

lemma first_rejection_in: "first_rejection sched es = Some e \<Longrightarrow> Some e \<in> set es"
proof (induction sched)
  case Nil
  then show ?case by simp
next
  case (Cons i sched)
  show ?case
  proof (cases "i < length es \<and> es ! i = Some e")
    case True
    then show ?thesis by (metis nth_mem)
  next
    case False
    with Cons show ?thesis by (auto split: if_splits option.splits)
  qed
qed

lemma first_rejection_append_None:
  "first_rejection (xs @ ys) es = None \<Longrightarrow> first_rejection ys es = None"
  by (induction xs) (auto split: if_splits option.splits)

lemma first_rejection_all:
  "first_rejection [0, 1, 2, 3] [a, b, c, d] = None \<Longrightarrow> a = None \<and> b = None \<and> c = None \<and> d = None"
  by (auto split: option.splits)

lemma Promise_all_Inl:
  assumes "Promise_all sched r0 r1 r2 r3 = Inl e"
  shows "r0 = Inl e \<or> r1 = Inl e \<or> r2 = Inl e \<or> r3 = Inl e"
proof (cases "first_rejection (sched @ [0, 1, 2, 3])
               [rejection r0, rejection r1, rejection r2, rejection r3]")
  case None
  then have "first_rejection [0, 1, 2, 3]
               [rejection r0, rejection r1, rejection r2, rejection r3] = None"
    by (rule first_rejection_append_None)
  then have "rejection r0 = None \<and> rejection r1 = None \<and> rejection r2 = None \<and> rejection r3 = None"
    by (rule first_rejection_all)
  then obtain a b c d where "r0 = Inr a" "r1 = Inr b" "r2 = Inr c" "r3 = Inr d"
    by (auto simp: rejection_None)
  with assms None show ?thesis by (simp add: Promise_all_def)
next
  case (Some e')
  with assms have "e' = e" by (simp add: Promise_all_def)
  with Some have "Some e \<in> set [rejection r0, rejection r1, rejection r2, rejection r3]"
    by (auto dest: first_rejection_in)
  then show ?thesis by (auto simp: rejection_Some)
qed

lemma Promise_all_Inr:
  assumes "Promise_all sched r0 r1 r2 r3 = Inr (a, b, c, d)"
  shows "r0 = Inr a \<and> r1 = Inr b \<and> r2 = Inr c \<and> r3 = Inr d"
proof (cases "first_rejection (sched @ [0, 1, 2, 3])
               [rejection r0, rejection r1, rejection r2, rejection r3]")
  case None
  then have "first_rejection [0, 1, 2, 3]
               [rejection r0, rejection r1, rejection r2, rejection r3] = None"
    by (rule first_rejection_append_None)
  then have "rejection r0 = None \<and> rejection r1 = None \<and> rejection r2 = None \<and> rejection r3 = None"
    by (rule first_rejection_all)
  then obtain a' b' c' d' where "r0 = Inr a'" "r1 = Inr b'" "r2 = Inr c'" "r3 = Inr d'"
    by (auto simp: rejection_None)
  with assms None show ?thesis by (simp add: Promise_all_def)
next
  case (Some e')
  with assms show ?thesis by (simp add: Promise_all_def)
qed

lemma Promise_all_fulfilled:
  "Promise_all sched (Inr a) (Inr b) (Inr c) (Inr d) = Inr (a, b, c, d)"
proof (cases "first_rejection (sched @ [0, 1, 2, 3])
               [rejection (Inr a), rejection (Inr b), rejection (Inr c), rejection (Inr d)]")
  case None
  then show ?thesis by (simp add: Promise_all_def)
next
  case (Some e)
  then have "Some e \<in> set [rejection (Inr a), rejection (Inr b), rejection (Inr c), rejection (Inr d)]"
    by (rule first_rejection_in)
  then show ?thesis by simp
qed

lemma Promise_all_rejected:
  assumes "r0 = Inl e0 \<or> r1 = Inl e1 \<or> r2 = Inl e2 \<or> r3 = Inl e3"
  shows "\<exists>e. Promise_all sched r0 r1 r2 r3 = Inl e"
proof (cases "Promise_all sched r0 r1 r2 r3")
  case (Inl e)
  then show ?thesis by blast
next
  case (Inr x)
  obtain a b c d where "x = (a, b, c, d)" by (cases x) auto
  with Inr have "r0 = Inr a \<and> r1 = Inr b \<and> r2 = Inr c \<and> r3 = Inr d"
    by (intro Promise_all_Inr) simp
  with assms show ?thesis by auto
qed

lemma Wallet_empty_seed:
  "\<not> truthy (o_seed opts) \<Longrightarrow>
   Wallet R L sched opts =
     \<lparr>returned = Returns Uninitialised, settled = Some Uninitialised,
      reported = Some (Inl InvalidArgument), calls = []\<rparr>"
  by (simp add: Wallet_def)

lemma Wallet_throws:
  "truthy (o_seed opts) \<Longrightarrow> fromMasterSeed L (o_seed opts) = Inl e \<Longrightarrow>
   Wallet R L sched opts = \<lparr>returned = Throws e, settled = None, reported = None, calls = []\<rparr>"
  by (simp add: Wallet_def)

lemma Wallet_rejected:
  assumes "truthy (o_seed opts)" "fromMasterSeed L (o_seed opts) = Inr ew"
    and "Promise_all sched
              (addresses_balance R (addressString (Wallet_init L opts ew)) (minConf (Wallet_init L opts ew)))
              (addresses_txsCount R (addressString (Wallet_init L opts ew)))
              (common_gasPrice R)
              (addresses_txs R (addressString (Wallet_init L opts ew))) = Inl e"
  shows "Wallet R L sched opts =
     \<lparr>returned = Returns (Initialised (Wallet_init L opts ew)),
      settled = Some (Initialised (Wallet_init L opts ew)),
      reported = Some (Inl e),
      calls = [BalanceCall (addressString (Wallet_init L opts ew)) (minConf (Wallet_init L opts ew)),
      TxsCountCall (addressString (Wallet_init L opts ew)),
      GasPriceCall,
      TxsCall (addressString (Wallet_init L opts ew))]\<rparr>"
  using assms by (simp add: Wallet_def Let_def)

lemma Wallet_fulfilled:
  assumes "truthy (o_seed opts)" "fromMasterSeed L (o_seed opts) = Inr ew"
    and "Promise_all sched
              (addresses_balance R (addressString (Wallet_init L opts ew)) (minConf (Wallet_init L opts ew)))
              (addresses_txsCount R (addressString (Wallet_init L opts ew)))
              (common_gasPrice R)
              (addresses_txs R (addressString (Wallet_init L opts ew))) = Inr (r0, r1, r2, r3)"
  shows "Wallet R L sched opts =
     (case transformTxs (addressString (Wallet_init L opts ew)) r3 of
        Inl e \<Rightarrow>
          \<lparr>returned = Returns (Initialised (Wallet_init L opts ew)),
           settled = Some (Initialised ((Wallet_init L opts ew)\<lparr>balance := b_balance r0,
                       confirmedBalance := b_confirmedBalance r0, txsCount := r1, gasPrice := r2\<rparr>)),
           reported = Some (Inl e),
           calls = [BalanceCall (addressString (Wallet_init L opts ew)) (minConf (Wallet_init L opts ew)),
      TxsCountCall (addressString (Wallet_init L opts ew)),
      GasPriceCall,
      TxsCall (addressString (Wallet_init L opts ew))]\<rparr>
      | Inr h \<Rightarrow>
          \<lparr>returned = Returns (Initialised (Wallet_init L opts ew)),
           settled = Some (Initialised ((Wallet_init L opts ew)\<lparr>balance := b_balance r0,
                       confirmedBalance := b_confirmedBalance r0, txsCount := r1, gasPrice := r2,
                       historyTxs := h\<rparr>)),
           reported = Some (Inr ((Wallet_init L opts ew)\<lparr>balance := b_balance r0,
                       confirmedBalance := b_confirmedBalance r0, txsCount := r1, gasPrice := r2,
                       historyTxs := h\<rparr>)),
           calls = [BalanceCall (addressString (Wallet_init L opts ew)) (minConf (Wallet_init L opts ew)),
      TxsCountCall (addressString (Wallet_init L opts ew)),
      GasPriceCall,
      TxsCall (addressString (Wallet_init L opts ew))]\<rparr>)"
  using assms by (simp add: Wallet_def Let_def split: sum.splits)

lemma Wallet_success:
  assumes "reported (Wallet R L sched opts) = Some (Inr w)"
  shows "truthy (o_seed opts) \<and>
    (\<exists>ew r0 r1 r2 r3 h.
       fromMasterSeed L (o_seed opts) = Inr ew
       \<and> addresses_balance R (addressString (Wallet_init L opts ew)) (minConf (Wallet_init L opts ew)) = Inr r0
       \<and> addresses_txsCount R (addressString (Wallet_init L opts ew)) = Inr r1
       \<and> common_gasPrice R = Inr r2
       \<and> addresses_txs R (addressString (Wallet_init L opts ew)) = Inr r3
       \<and> transformTxs (addressString (Wallet_init L opts ew)) r3 = Inr h
       \<and> w = (Wallet_init L opts ew)\<lparr>balance := b_balance r0,
                    confirmedBalance := b_confirmedBalance r0,
                    txsCount := r1,
                    gasPrice := r2,
                    historyTxs := h\<rparr>
       \<and> settled (Wallet R L sched opts) = Some (Initialised w)
       \<and> calls (Wallet R L sched opts) = [BalanceCall (addressString (Wallet_init L opts ew)) (minConf (Wallet_init L opts ew)),
      TxsCountCall (addressString (Wallet_init L opts ew)),
      GasPriceCall,
      TxsCall (addressString (Wallet_init L opts ew))])"
proof -
  have t: "truthy (o_seed opts)"
    using assms by (cases "truthy (o_seed opts)") (simp_all add: Wallet_empty_seed)
  obtain ew where ew: "fromMasterSeed L (o_seed opts) = Inr ew"
    using assms t by (cases "fromMasterSeed L (o_seed opts)") (simp_all add: Wallet_throws)
  let ?P = "Promise_all sched
              (addresses_balance R (addressString (Wallet_init L opts ew)) (minConf (Wallet_init L opts ew)))
              (addresses_txsCount R (addressString (Wallet_init L opts ew)))
              (common_gasPrice R)
              (addresses_txs R (addressString (Wallet_init L opts ew)))"
  obtain x where x: "?P = Inr x"
    using assms t ew by (cases ?P) (simp_all add: Wallet_rejected)
  obtain r0 r1 r2 r3 where x4: "x = (r0, r1, r2, r3)" by (cases x) auto
  note W = Wallet_fulfilled [OF t ew x [unfolded x4]]
  from x x4 have rs: "addresses_balance R (addressString (Wallet_init L opts ew)) (minConf (Wallet_init L opts ew)) = Inr r0
       \<and> addresses_txsCount R (addressString (Wallet_init L opts ew)) = Inr r1
       \<and> common_gasPrice R = Inr r2
       \<and> addresses_txs R (addressString (Wallet_init L opts ew)) = Inr r3"
    by (intro Promise_all_Inr) simp
  obtain h where h: "transformTxs (addressString (Wallet_init L opts ew)) r3 = Inr h"
    using assms W by (cases "transformTxs (addressString (Wallet_init L opts ew)) r3") simp_all
  have "w = (Wallet_init L opts ew)\<lparr>balance := b_balance r0,
                    confirmedBalance := b_confirmedBalance r0,
                    txsCount := r1, gasPrice := r2, historyTxs := h\<rparr>"
    and "settled (Wallet R L sched opts) = Some (Initialised w)"
    and "calls (Wallet R L sched opts) = [BalanceCall (addressString (Wallet_init L opts ew)) (minConf (Wallet_init L opts ew)),
      TxsCountCall (addressString (Wallet_init L opts ew)),
      GasPriceCall,
      TxsCall (addressString (Wallet_init L opts ew))]"
    using assms W h by simp_all
  with t ew rs h show ?thesis by blast
qed

lemma Wallet_failure:
  assumes "truthy (o_seed opts)" "fromMasterSeed L (o_seed opts) = Inr ew"
    and "addresses_balance R (addressString (Wallet_init L opts ew)) (minConf (Wallet_init L opts ew)) = Inl e0
       \<or> addresses_txsCount R (addressString (Wallet_init L opts ew)) = Inl e1
       \<or> common_gasPrice R = Inl e2
       \<or> addresses_txs R (addressString (Wallet_init L opts ew)) = Inl e3"
  shows "\<exists>e. reported (Wallet R L sched opts) = Some (Inl e) \<and>
      (addresses_balance R (addressString (Wallet_init L opts ew)) (minConf (Wallet_init L opts ew)) = Inl e
       \<or> addresses_txsCount R (addressString (Wallet_init L opts ew)) = Inl e
       \<or> common_gasPrice R = Inl e
       \<or> addresses_txs R (addressString (Wallet_init L opts ew)) = Inl e)
      \<and> returned (Wallet R L sched opts) = Returns (Initialised (Wallet_init L opts ew))
      \<and> settled (Wallet R L sched opts) = Some (Initialised (Wallet_init L opts ew))"
proof -
  let ?P = "Promise_all sched
              (addresses_balance R (addressString (Wallet_init L opts ew)) (minConf (Wallet_init L opts ew)))
              (addresses_txsCount R (addressString (Wallet_init L opts ew)))
              (common_gasPrice R)
              (addresses_txs R (addressString (Wallet_init L opts ew)))"
  from assms(3) obtain e where e: "?P = Inl e"
    using Promise_all_rejected by blast
  note W = Wallet_rejected [OF assms(1,2) e]
  from Promise_all_Inl [OF e] show ?thesis
    by (intro exI [of _ e]) (simp add: W)
qed

lemma Wallet_init_test:
  "Wallet_init test_lib \<lparr>o_seed = JStr ''5eed'', o_networkName = JStr ''ethereum'', o_minConf = m\<rparr>
     test_key =
     \<lparr>networkName = JStr ''ethereum'', balance = JNum 0, confirmedBalance = JNum 0,
      historyTxs = [], txsCount = 0, etherWallet = test_key, addressString = test_address,
      gasPrice = JStr ''0'', gasLimit = JStr ''21000'', minConf = minConf_or_5 m\<rparr>"
  by (simp add: Wallet_init_def test_lib_address)

lemma Wallet_test_remote:
  "Wallet test_remote test_lib sched
       \<lparr>o_seed = JStr ''5eed'', o_networkName = JStr ''ethereum'', o_minConf = m\<rparr>
   = \<lparr>returned = Returns (Initialised (placeholder_wallet\<lparr>minConf := minConf_or_5 m\<rparr>)),
      settled = Some (Initialised (constructed_wallet\<lparr>minConf := minConf_or_5 m\<rparr>)),
      reported = Some (Inr (constructed_wallet\<lparr>minConf := minConf_or_5 m\<rparr>)),
      calls = [BalanceCall test_address (minConf_or_5 m), TxsCountCall test_address,
               GasPriceCall, TxsCall test_address]\<rparr>"
proof -
  let ?opts = "\<lparr>o_seed = JStr ''5eed'', o_networkName = JStr ''ethereum'', o_minConf = m\<rparr>"
  have t: "truthy (o_seed ?opts)" by simp
  have k: "fromMasterSeed test_lib (o_seed ?opts) = Inr test_key"
    by (simp add: test_lib_seed)
  have n: "transformTxs test_address [raw_receive] = Inr [normalized_receive]"
    by (simp add: transformTxs_def transformTx_raw_receive)
  have p: "Promise_all sched
      (addresses_balance test_remote (addressString (Wallet_init test_lib ?opts test_key))
         (minConf (Wallet_init test_lib ?opts test_key)))
      (addresses_txsCount test_remote (addressString (Wallet_init test_lib ?opts test_key)))
      (common_gasPrice test_remote)
      (addresses_txs test_remote (addressString (Wallet_init test_lib ?opts test_key)))
    = Inr (\<lparr>b_balance = JStr ''1000000'', b_confirmedBalance = JStr ''900000''\<rparr>, 7, JStr ''2'',
           [raw_receive])"
    by (simp add: test_remote_def Promise_all_fulfilled)
  show ?thesis
    by (simp only: Wallet_fulfilled [OF t k p])
       (simp add: Wallet_init_test n placeholder_wallet_def constructed_wallet_def)
qed

lemma Wallet_failing_remote:
  "Wallet failing_remote test_lib [3, 1] test_options
   = \<lparr>returned = Returns (Initialised placeholder_wallet),
      settled = Some (Initialised placeholder_wallet),
      reported = Some (Inl (RemoteFailure ''timeout'')),
      calls = [BalanceCall test_address 5, TxsCountCall test_address,
               GasPriceCall, TxsCall test_address]\<rparr>"
proof -
  have t: "truthy (o_seed test_options)" by (simp add: test_options_def)
  have k: "fromMasterSeed test_lib (o_seed test_options) = Inr test_key"
    by (simp add: test_options_def test_lib_seed)
  have i: "Wallet_init test_lib test_options test_key = placeholder_wallet"
    by (simp add: test_options_def Wallet_init_test minConf_or_5_def placeholder_wallet_def)
  have p: "Promise_all [3, 1]
      (addresses_balance failing_remote (addressString (Wallet_init test_lib test_options test_key))
         (minConf (Wallet_init test_lib test_options test_key)))
      (addresses_txsCount failing_remote
         (addressString (Wallet_init test_lib test_options test_key)))
      (common_gasPrice failing_remote)
      (addresses_txs failing_remote (addressString (Wallet_init test_lib test_options test_key)))
    = Inl (RemoteFailure ''timeout'')"
    by (simp add: failing_remote_def test_remote_def Promise_all_def)
  show ?thesis
    by (simp only: Wallet_rejected [OF t k p]) (simp add: i placeholder_wallet_def)
qed

lemma Wallet_garbled_remote:
  "Wallet garbled_remote test_lib [] test_options
   = \<lparr>returned = Returns (Initialised placeholder_wallet),
      settled = Some (Initialised half_updated_wallet),
      reported = Some (Inl NotANumber),
      calls = [BalanceCall test_address 5, TxsCountCall test_address,
               GasPriceCall, TxsCall test_address]\<rparr>"
proof -
  have t: "truthy (o_seed test_options)" by (simp add: test_options_def)
  have k: "fromMasterSeed test_lib (o_seed test_options) = Inr test_key"
    by (simp add: test_options_def test_lib_seed)
  have i: "Wallet_init test_lib test_options test_key = placeholder_wallet"
    by (simp add: test_options_def Wallet_init_test minConf_or_5_def placeholder_wallet_def)
  have n: "transformTxs test_address [raw_receive\<lparr>tx_gasUsed := JStr ''abc''\<rparr>] = Inl NotANumber"
    by (simp add: transformTxs_def transformTx_def raw_receive_def Big_eval)
  have p: "Promise_all []
      (addresses_balance garbled_remote (addressString (Wallet_init test_lib test_options test_key))
         (minConf (Wallet_init test_lib test_options test_key)))
      (addresses_txsCount garbled_remote
         (addressString (Wallet_init test_lib test_options test_key)))
      (common_gasPrice garbled_remote)
      (addresses_txs garbled_remote (addressString (Wallet_init test_lib test_options test_key)))
    = Inr (\<lparr>b_balance = JStr ''1000000'', b_confirmedBalance = JStr ''900000''\<rparr>, 7, JStr ''2'',
           [raw_receive\<lparr>tx_gasUsed := JStr ''abc''\<rparr>])"
    by (simp add: garbled_remote_def test_remote_def Promise_all_fulfilled)
  show ?thesis
    by (simp only: Wallet_fulfilled [OF t k p])
       (simp add: i n placeholder_wallet_def half_updated_wallet_def)
qed

text \<open>
  C5, as stated, has construction never expose a partially initialised wallet to the
  caller. The expression \<^verbatim>\<open>new Wallet(options)\<close> hands the object under construction to
  its caller at once, whatever happens later: when the transaction count lookup is
  rejected, \<^verbatim>\<open>done\<close> receives the error alone, but the caller of \<^verbatim>\<open>new\<close> holds an object with
  the placeholder balance \<open>0\<close>, \<open>txsCount\<close> \<open>0\<close> and gas price \<open>"0"\<close>, and it stays so;
  with an empty seed the caller holds an object none of whose fields is assigned; and
  when all lookups are fulfilled but the normalisation of the history throws, \<^verbatim>\<open>done\<close>
  receives the error while the object is left with the fetched balance, \<open>txsCount\<close> and
  gas price and an empty history.
\<close>

theorem Wallet_exposed_counterexample:
  "reported (Wallet failing_remote test_lib [3, 1] test_options)
     = Some (Inl (RemoteFailure ''timeout''))
   \<and> returned (Wallet failing_remote test_lib [3, 1] test_options)
     = Returns (Initialised placeholder_wallet)
   \<and> settled (Wallet failing_remote test_lib [3, 1] test_options)
     = Some (Initialised placeholder_wallet)
   \<and> balance placeholder_wallet = JNum 0
   \<and> txsCount placeholder_wallet = 0
   \<and> gasPrice placeholder_wallet = JStr ''0''
   \<and> returned (Wallet test_remote test_lib [] empty_seed_options) = Returns Uninitialised
   \<and> reported (Wallet garbled_remote test_lib [] test_options) = Some (Inl NotANumber)
   \<and> settled (Wallet garbled_remote test_lib [] test_options)
       = Some (Initialised half_updated_wallet)
   \<and> balance half_updated_wallet = JStr ''1000000''
   \<and> historyTxs half_updated_wallet = []"
proof -
  have e: "\<not> truthy (o_seed empty_seed_options)"
    by (simp add: empty_seed_options_def)
  show ?thesis
    unfolding Wallet_failing_remote Wallet_garbled_remote Wallet_empty_seed [OF e]
    by (simp add: placeholder_wallet_def half_updated_wallet_def)
qed

text \<open>
  C5, amended. With an empty seed (a falsy one: the empty string, \<^verbatim>\<open>undefined\<close>, \<^verbatim>\<open>null\<close>)
  the constructor reports \<open>InvalidArgument\<close> to \<^verbatim>\<open>done\<close> and sends no request to the remote
  API. With a seed from which a key is derived, if any of the four lookups is rejected,
  \<^verbatim>\<open>done\<close> receives an error alone, and that error is the one of a rejected lookup.
  Whenever \<^verbatim>\<open>done\<close> receives a wallet, all four lookups were fulfilled and the wallet
  holds their results: balance, confirmed balance, \<open>txsCount\<close>, gas price and the history
  with every entry normalised. So \<^verbatim>\<open>done\<close> never receives a partially initialised
  wallet; the object that \<^verbatim>\<open>new\<close> returns is not covered.
\<close>

theorem Wallet_done_atomic:
  "(\<not> truthy (o_seed opts) \<longrightarrow>
      reported (Wallet R L sched opts) = Some (Inl InvalidArgument)
      \<and> calls (Wallet R L sched opts) = [])
   \<and> (truthy (o_seed opts) \<longrightarrow> fromMasterSeed L (o_seed opts) = Inr ew \<longrightarrow>
       (addresses_balance R (addressString (Wallet_init L opts ew)) (minConf (Wallet_init L opts ew)) = Inl e0
        \<or> addresses_txsCount R (addressString (Wallet_init L opts ew)) = Inl e1
        \<or> common_gasPrice R = Inl e2
        \<or> addresses_txs R (addressString (Wallet_init L opts ew)) = Inl e3) \<longrightarrow>
       (\<exists>e. reported (Wallet R L sched opts) = Some (Inl e) \<and>
          (addresses_balance R (addressString (Wallet_init L opts ew)) (minConf (Wallet_init L opts ew)) = Inl e
           \<or> addresses_txsCount R (addressString (Wallet_init L opts ew)) = Inl e
           \<or> common_gasPrice R = Inl e
           \<or> addresses_txs R (addressString (Wallet_init L opts ew)) = Inl e)))
   \<and> (reported (Wallet R L sched opts) = Some (Inr w) \<longrightarrow>
       (\<exists>k r0 r1 r2 r3.
          fromMasterSeed L (o_seed opts) = Inr k
          \<and> addresses_balance R (addressString (Wallet_init L opts k)) (minConf (Wallet_init L opts k)) = Inr r0
          \<and> addresses_txsCount R (addressString (Wallet_init L opts k)) = Inr r1
          \<and> common_gasPrice R = Inr r2
          \<and> addresses_txs R (addressString (Wallet_init L opts k)) = Inr r3
          \<and> list_all2 (\<lambda>tx tx'. transformTx (addressString (Wallet_init L opts k)) tx = Inr tx')
               r3 (historyTxs w)
          \<and> balance w = b_balance r0 \<and> confirmedBalance w = b_confirmedBalance r0
          \<and> txsCount w = r1 \<and> gasPrice w = r2
          \<and> w = (Wallet_init L opts k)\<lparr>balance := b_balance r0,
                    confirmedBalance := b_confirmedBalance r0,
                    txsCount := r1, gasPrice := r2, historyTxs := historyTxs w\<rparr>))"
proof (intro conjI impI)
  assume "\<not> truthy (o_seed opts)"
  then show "reported (Wallet R L sched opts) = Some (Inl InvalidArgument)"
    and "calls (Wallet R L sched opts) = []"
    by (simp_all add: Wallet_empty_seed)
next
  assume "truthy (o_seed opts)" "fromMasterSeed L (o_seed opts) = Inr ew"
    and "addresses_balance R (addressString (Wallet_init L opts ew)) (minConf (Wallet_init L opts ew)) = Inl e0
        \<or> addresses_txsCount R (addressString (Wallet_init L opts ew)) = Inl e1
        \<or> common_gasPrice R = Inl e2
        \<or> addresses_txs R (addressString (Wallet_init L opts ew)) = Inl e3"
  from Wallet_failure [OF this]
  show "\<exists>e. reported (Wallet R L sched opts) = Some (Inl e) \<and>
          (addresses_balance R (addressString (Wallet_init L opts ew)) (minConf (Wallet_init L opts ew)) = Inl e
           \<or> addresses_txsCount R (addressString (Wallet_init L opts ew)) = Inl e
           \<or> common_gasPrice R = Inl e
           \<or> addresses_txs R (addressString (Wallet_init L opts ew)) = Inl e)"
    by blast
next
  assume "reported (Wallet R L sched opts) = Some (Inr w)"
  from Wallet_success [OF this]
  show "\<exists>k r0 r1 r2 r3.
          fromMasterSeed L (o_seed opts) = Inr k
          \<and> addresses_balance R (addressString (Wallet_init L opts k)) (minConf (Wallet_init L opts k)) = Inr r0
          \<and> addresses_txsCount R (addressString (Wallet_init L opts k)) = Inr r1
          \<and> common_gasPrice R = Inr r2
          \<and> addresses_txs R (addressString (Wallet_init L opts k)) = Inr r3
          \<and> list_all2 (\<lambda>tx tx'. transformTx (addressString (Wallet_init L opts k)) tx = Inr tx')
               r3 (historyTxs w)
          \<and> balance w = b_balance r0 \<and> confirmedBalance w = b_confirmedBalance r0
          \<and> txsCount w = r1 \<and> gasPrice w = r2
          \<and> w = (Wallet_init L opts k)\<lparr>balance := b_balance r0,
                    confirmedBalance := b_confirmedBalance r0,
                    txsCount := r1, gasPrice := r2, historyTxs := historyTxs w\<rparr>"
    by (clarsimp simp: transformTxs_iff)
qed

theorem Wallet_done_atomic_witness:
  "\<not> truthy (o_seed empty_seed_options)
   \<and> reported (Wallet test_remote test_lib [] empty_seed_options) = Some (Inl InvalidArgument)
   \<and> calls (Wallet test_remote test_lib [] empty_seed_options) = []
   \<and> truthy (o_seed test_options)
   \<and> fromMasterSeed test_lib (o_seed test_options) = Inr test_key
   \<and> addresses_txsCount failing_remote (addressString (Wallet_init test_lib test_options test_key))
       = Inl (RemoteFailure ''timeout'')
   \<and> reported (Wallet failing_remote test_lib [3, 1] test_options)
       = Some (Inl (RemoteFailure ''timeout''))
   \<and> reported (Wallet test_remote test_lib [3, 1] test_options) = Some (Inr constructed_wallet)
   \<and> balance constructed_wallet = JStr ''1000000''
   \<and> historyTxs constructed_wallet = [normalized_receive]"
proof -
  have e: "\<not> truthy (o_seed empty_seed_options)"
    by (simp add: empty_seed_options_def)
  have t: "truthy (o_seed test_options)"
    by (simp add: test_options_def)
  have k: "fromMasterSeed test_lib (o_seed test_options) = Inr test_key"
    by (simp add: test_options_def test_lib_seed)
  have i: "Wallet_init test_lib test_options test_key = placeholder_wallet"
    by (simp add: test_options_def Wallet_init_test minConf_or_5_def placeholder_wallet_def)
  have a: "addressString placeholder_wallet = test_address" "minConf placeholder_wallet = 5"
    by (simp_all add: placeholder_wallet_def)
  have f: "addresses_txsCount failing_remote (addressString (Wallet_init test_lib test_options test_key))
       = Inl (RemoteFailure ''timeout'')"
    by (simp add: failing_remote_def)
  have others: "addresses_balance failing_remote (addressString (Wallet_init test_lib test_options test_key))
         (minConf (Wallet_init test_lib test_options test_key)) \<noteq> Inl x"
     "common_gasPrice failing_remote \<noteq> Inl x"
     "addresses_txs failing_remote (addressString (Wallet_init test_lib test_options test_key)) \<noteq> Inl x"
    for x
    by (simp_all add: failing_remote_def test_remote_def)
  have s: "reported (Wallet test_remote test_lib [3, 1] test_options) = Some (Inr constructed_wallet)"
    by (simp add: test_options_def Wallet_test_remote minConf_or_5_def constructed_wallet_def)
  have c1: "reported (Wallet test_remote test_lib [] empty_seed_options) = Some (Inl InvalidArgument)
       \<and> calls (Wallet test_remote test_lib [] empty_seed_options) = []"
    using Wallet_done_atomic [of empty_seed_options test_remote test_lib "[]"] e by blast
  have "\<exists>x. reported (Wallet failing_remote test_lib [3, 1] test_options) = Some (Inl x) \<and>
          (addresses_balance failing_remote (addressString (Wallet_init test_lib test_options test_key))
              (minConf (Wallet_init test_lib test_options test_key)) = Inl x
           \<or> addresses_txsCount failing_remote
                (addressString (Wallet_init test_lib test_options test_key)) = Inl x
           \<or> common_gasPrice failing_remote = Inl x
           \<or> addresses_txs failing_remote
                (addressString (Wallet_init test_lib test_options test_key)) = Inl x)"
    using Wallet_done_atomic [of test_options failing_remote test_lib "[3, 1]" test_key _
        "RemoteFailure ''timeout''"] t k f by blast
  then have c2: "reported (Wallet failing_remote test_lib [3, 1] test_options)
       = Some (Inl (RemoteFailure ''timeout''))"
    using others f by auto
  have c3: "balance constructed_wallet = JStr ''1000000''
       \<and> historyTxs constructed_wallet = [normalized_receive]"
    using Wallet_done_atomic [of test_options test_remote test_lib "[3, 1]" _ _ _ _ _
        constructed_wallet] s k
    by (auto simp: test_remote_def i a list_all2_Cons1 transformTx_raw_receive)
  show ?thesis
    using e t k f s c1 c2 c3 by simp
qed

text \<open>
  C10. When \<^verbatim>\<open>options.minConf\<close> is \<open>0\<close> or is missing, the constructed wallet has
  \<open>minConf = 5\<close>, and the balance lookup was made with \<open>5\<close>: the default is chosen by
  \<^verbatim>\<open>options.minConf || 5\<close>, so a threshold of \<open>0\<close> cannot be set. Any other threshold
  is kept.
\<close>

theorem Wallet_minConf_falsy:
  "((o_minConf opts = Some 0 \<or> o_minConf opts = None) \<longrightarrow>
      reported (Wallet R L sched opts) = Some (Inr w) \<longrightarrow>
      minConf w = 5 \<and> BalanceCall (addressString w) 5 \<in> set (calls (Wallet R L sched opts)))
   \<and> (o_minConf opts = Some n \<longrightarrow> n \<noteq> 0 \<longrightarrow>
      reported (Wallet R L sched opts) = Some (Inr w) \<longrightarrow> minConf w = n)"
proof (intro conjI impI)
  assume m: "o_minConf opts = Some 0 \<or> o_minConf opts = None"
    and r: "reported (Wallet R L sched opts) = Some (Inr w)"
  from m have m5: "minConf (Wallet_init L opts ew) = 5" for ew
    by (auto simp: Wallet_init_def minConf_or_5_def)
  from Wallet_success [OF r] obtain ew where
    w: "minConf w = minConf (Wallet_init L opts ew)"
       "addressString w = addressString (Wallet_init L opts ew)"
       "calls (Wallet R L sched opts) =
          [BalanceCall (addressString (Wallet_init L opts ew)) (minConf (Wallet_init L opts ew)),
           TxsCountCall (addressString (Wallet_init L opts ew)),
           GasPriceCall,
           TxsCall (addressString (Wallet_init L opts ew))]"
    by auto
  from w m5 show "minConf w = 5" by simp
  from w m5 show "BalanceCall (addressString w) 5 \<in> set (calls (Wallet R L sched opts))"
    by simp
next
  assume "o_minConf opts = Some n" "n \<noteq> 0"
    and r: "reported (Wallet R L sched opts) = Some (Inr w)"
  then have "minConf (Wallet_init L opts ew) = n" for ew
    by (simp add: Wallet_init_def minConf_or_5_def)
  with Wallet_success [OF r] show "minConf w = n" by auto
qed

theorem Wallet_minConf_falsy_witness:
  "o_minConf test_options = Some 0
   \<and> reported (Wallet test_remote test_lib [] test_options) = Some (Inr constructed_wallet)
   \<and> minConf constructed_wallet = 5
   \<and> BalanceCall (addressString constructed_wallet) 5
        \<in> set (calls (Wallet test_remote test_lib [] test_options))
   \<and> o_minConf (test_options\<lparr>o_minConf := Some 3\<rparr>) = Some 3 \<and> (3::int) \<noteq> 0
   \<and> reported (Wallet test_remote test_lib [] (test_options\<lparr>o_minConf := Some 3\<rparr>))
       = Some (Inr (constructed_wallet\<lparr>minConf := 3\<rparr>))
   \<and> minConf (constructed_wallet\<lparr>minConf := 3\<rparr>) = 3"
proof -
  have m: "o_minConf test_options = Some 0"
    by (simp add: test_options_def)
  have s: "reported (Wallet test_remote test_lib [] test_options) = Some (Inr constructed_wallet)"
    by (simp add: test_options_def Wallet_test_remote minConf_or_5_def constructed_wallet_def)
  have s3: "reported (Wallet test_remote test_lib [] (test_options\<lparr>o_minConf := Some 3\<rparr>))
       = Some (Inr (constructed_wallet\<lparr>minConf := 3\<rparr>))"
    by (simp add: test_options_def Wallet_test_remote minConf_or_5_def)
  have c1: "minConf constructed_wallet = 5
      \<and> BalanceCall (addressString constructed_wallet) 5
        \<in> set (calls (Wallet test_remote test_lib [] test_options))"
    using Wallet_minConf_falsy [of test_options test_remote test_lib "[]" constructed_wallet] m s
    by blast
  have c2: "minConf (constructed_wallet\<lparr>minConf := 3\<rparr>) = 3"
    using Wallet_minConf_falsy [of "test_options\<lparr>o_minConf := Some 3\<rparr>" test_remote test_lib "[]"
        "constructed_wallet\<lparr>minConf := 3\<rparr>" 3] s3
    by simp
  show ?thesis
    using m s s3 c1 c2 by simp
qed

section \<open>Persistence and the address of the key\<close>

lemma hex_val_hex_digit: "n < 16 \<Longrightarrow> hex_val (hex_digit n) = Some n"
  by (simp add: hex_val_def hex_digit_def Let_def)

lemma byte_of_nibbles: "(of_nat (16 * (unat b div 16) + unat b mod 16) :: byte) = b"
  by simp

lemma nibble_bounds: "unat (b :: byte) div 16 < 16" "unat b mod 16 < 16"
proof -
  have "unat b < 2 ^ LENGTH(8)" by (rule unsigned_less)
  then have "unat b < 256" by simp
  then show "unat b div 16 < 16" by simp
  show "unat b mod 16 < 16" by simp
qed

lemma fromHex_toHex: "fromHex (toHex bs) = Some bs"
  by (induction bs) (simp_all add: hex_val_hex_digit nibble_bounds byte_of_nibbles del: of_nat_add of_nat_mult)

lemma createPrivateKey_getPrivateKeyString:
  "createPrivateKey L (getPrivateKeyString ew) =
     (if isValidPrivate L ew then Inr ew else Inl InvalidPrivateKey)"
  by (simp add: createPrivateKey_def getPrivateKeyString_def fromHex_toHex)

lemma createPrivateKey_test_key: "createPrivateKey test_lib test_key_hex = Inr test_key"
  using createPrivateKey_getPrivateKeyString [of test_lib test_key]
  by (simp add: test_key_string test_key_valid)

lemma deserialize_fields:
  assumes "deserialize L r = Inr w"
  shows "createPrivateKey L (s_privateKey r) = Inr (etherWallet w)"
    and "addressString w = s_addressString r"
    and "networkName w = s_networkName r" and "balance w = s_balance r"
    and "confirmedBalance w = s_confirmedBalance r" and "historyTxs w = s_historyTxs r"
    and "txsCount w = s_txsCount r" and "gasPrice w = s_gasPrice r"
    and "gasLimit w = s_gasLimit r" and "minConf w = s_minConf r"
  using assms
  by (cases "createPrivateKey L (s_privateKey r)"; auto simp: deserialize_def fromPrivateKey_def)+

lemma deserialize_serialize:
  assumes "isValidPrivate L (etherWallet w)"
  shows "deserialize L (serialize L w) =
         Inr (w\<lparr>addressString := getAddressString L (etherWallet w)\<rparr>)"
  using assms
  by (simp add: deserialize_def serialize_def createPrivateKey_getPrivateKeyString
        fromPrivateKey_def getBalance_def)

lemma deserialize_serialize_valid:
  assumes "deserialize L (serialize L w0) = Inr w"
  shows "isValidPrivate L (etherWallet w0)"
proof (rule ccontr)
  assume "\<not> isValidPrivate L (etherWallet w0)"
  then have "deserialize L (serialize L w0) = Inl InvalidPrivateKey"
    by (simp add: deserialize_def serialize_def createPrivateKey_getPrivateKeyString)
  with assms show False by simp
qed

lemma processTx_identity:
  assumes "processTx R w txId = (res, w')"
  shows "etherWallet w' = etherWallet w \<and> addressString w' = addressString w"
  using assms by (auto simp: processTx_def bindE_Inr Let_def split: sum.splits prod.splits)

lemma sendTx_identity:
  assumes "sendTx R L w tx = (res, w')"
  shows "etherWallet w' = etherWallet w \<and> addressString w' = addressString w"
  using assms by (auto simp: sendTx_def Let_def split: sum.splits dest: processTx_identity)

lemma Wallet_identity:
  assumes "reported (Wallet R L sched opts) = Some (Inr w)"
  shows "addressString w = getAddressString L (etherWallet w)"
    and "fromMasterSeed L (o_seed opts) = Inr (etherWallet w)"
  using Wallet_success [OF assms] by (auto simp: Wallet_init_def Let_def)

lemma Wallet_returned_identity:
  assumes "returned (Wallet R L sched opts) = Returns (Initialised w)"
  shows "addressString w = getAddressString L (etherWallet w)"
proof -
  from assms have t: "truthy (o_seed opts)"
    by (cases "truthy (o_seed opts)") (simp_all add: Wallet_empty_seed)
  from assms t obtain ew where ew: "fromMasterSeed L (o_seed opts) = Inr ew"
    by (cases "fromMasterSeed L (o_seed opts)") (simp_all add: Wallet_throws)
  from assms t ew have "w = Wallet_init L opts ew"
    by (simp add: Wallet_def Let_def split: sum.splits prod.splits)
  then show ?thesis by (simp add: Wallet_init_def)
qed

lemma Wallet_settled_identity:
  assumes "settled (Wallet R L sched opts) = Some (Initialised w)"
  shows "addressString w = getAddressString L (etherWallet w)"
proof -
  from assms have t: "truthy (o_seed opts)"
    by (cases "truthy (o_seed opts)") (simp_all add: Wallet_empty_seed)
  from assms t obtain ew where ew: "fromMasterSeed L (o_seed opts) = Inr ew"
    by (cases "fromMasterSeed L (o_seed opts)") (simp_all add: Wallet_throws)
  from assms t ew
  have "addressString w = addressString (Wallet_init L opts ew)
      \<and> etherWallet w = etherWallet (Wallet_init L opts ew)"
    by (auto simp: Wallet_def Let_def split: sum.splits prod.splits)
  then show ?thesis by (simp add: Wallet_init_def)
qed

lemma addressString_update_same:
  "w\<lparr>addressString := a\<rparr> = w \<longleftrightarrow> a = addressString w"
  by (cases w) simp

lemma pending_wallet_valid:
  "isValidPrivate test_lib (etherWallet pending_wallet)"
  "addressString pending_wallet = getAddressString test_lib (etherWallet pending_wallet)"
  by (simp_all add: pending_wallet_def test_wallet_valid)

lemma inconsistent_wallet_key:
  "isValidPrivate test_lib (etherWallet inconsistent_wallet)"
  "getAddressString test_lib (etherWallet inconsistent_wallet) = test_address"
  by (simp_all add: inconsistent_wallet_def test_lib_address test_key_valid)

lemma reachable_constructed_wallet: "reachable test_lib constructed_wallet"
proof (rule reachable.constructed)
  show "reported (Wallet test_remote test_lib [] test_options) = Some (Inr constructed_wallet)"
    by (simp add: test_options_def Wallet_test_remote minConf_or_5_def constructed_wallet_def)
qed

text \<open>
  C6, as stated, has the address unchanged across the round trip for every wallet.
  \<open>serialize\<close> does not write the address that the wallet stores: it writes the address
  of the wallet's key (\<^verbatim>\<open>this.etherWallet.getAddressString()\<close>). The wallet that
  \<open>deserialize\<close> builds from a record with the private key \<open>1\<close> and the address
  \<open>0xff...ff\<close> stores \<open>0xff...ff\<close>; after \<open>serialize\<close> and \<open>deserialize\<close> it stores the
  address of the key \<open>1\<close> instead.
\<close>

theorem round_trip_address_counterexample:
  "deserialize test_lib inconsistent_record = Inr inconsistent_wallet
   \<and> addressString inconsistent_wallet = wrong_address
   \<and> deserialize test_lib (serialize test_lib inconsistent_wallet)
       = Inr (inconsistent_wallet\<lparr>addressString := test_address\<rparr>)
   \<and> addressString (inconsistent_wallet\<lparr>addressString := test_address\<rparr>) = test_address
   \<and> wrong_address \<noteq> test_address"
proof -
  have "deserialize test_lib inconsistent_record = Inr inconsistent_wallet"
    by (simp add: deserialize_def inconsistent_record_def inconsistent_wallet_def
          createPrivateKey_test_key fromPrivateKey_def)
  moreover have "deserialize test_lib (serialize test_lib inconsistent_wallet)
       = Inr (inconsistent_wallet\<lparr>addressString := test_address\<rparr>)"
    by (simp add: deserialize_serialize inconsistent_wallet_key)
  moreover have "addressString inconsistent_wallet = wrong_address"
    by (simp add: inconsistent_wallet_def)
  ultimately show ?thesis by simp
qed

text \<open>
  C6, amended. For a wallet \<open>w\<close> (its key is valid, as the key of every \<^verbatim>\<open>etherWallet\<close>
  object is), \<open>deserialize\<close> applied to \<open>serialize w\<close> succeeds and gives a wallet equal
  to \<open>w\<close> on every persisted field: \<open>networkName\<close>, \<open>balance\<close>, \<open>confirmedBalance\<close>,
  \<open>historyTxs\<close>, \<open>txsCount\<close>, \<open>gasPrice\<close>, \<open>gasLimit\<close> and \<open>minConf\<close>. Its key is the
  one parsed from the persisted private key, which is the key of \<open>w\<close>; its address is
  the address of that key. So the address is unchanged across the round trip exactly
  when \<open>w\<close> stores the address of its key, and then the round trip gives back \<open>w\<close>
  itself.
\<close>

theorem serialize_deserialize:
  assumes "isValidPrivate L (etherWallet w)"
  shows "\<exists>w'. deserialize L (serialize L w) = Inr w'
           \<and> networkName w' = networkName w \<and> balance w' = balance w
           \<and> confirmedBalance w' = confirmedBalance w \<and> historyTxs w' = historyTxs w
           \<and> txsCount w' = txsCount w \<and> gasPrice w' = gasPrice w
           \<and> gasLimit w' = gasLimit w \<and> minConf w' = minConf w
           \<and> createPrivateKey L (s_privateKey (serialize L w)) = Inr (etherWallet w')
           \<and> etherWallet w' = etherWallet w
           \<and> addressString w' = getAddressString L (etherWallet w)
           \<and> (addressString w' = addressString w
                \<longleftrightarrow> addressString w = getAddressString L (etherWallet w))
           \<and> (w' = w \<longleftrightarrow> addressString w = getAddressString L (etherWallet w))"
proof -
  let ?w' = "w\<lparr>addressString := getAddressString L (etherWallet w)\<rparr>"
  have d: "deserialize L (serialize L w) = Inr ?w'"
    using assms by (rule deserialize_serialize)
  have k: "createPrivateKey L (s_privateKey (serialize L w)) = Inr (etherWallet ?w')"
    using d by (rule deserialize_fields)
  have a: "?w' = w \<longleftrightarrow> addressString w = getAddressString L (etherWallet w)"
    by (auto simp: addressString_update_same)
  show ?thesis
    using d k a by (intro exI [of _ ?w']) auto
qed

theorem serialize_deserialize_witness:
  "isValidPrivate test_lib (etherWallet pending_wallet)
   \<and> addressString pending_wallet = getAddressString test_lib (etherWallet pending_wallet)
   \<and> length (historyTxs pending_wallet) = 3
   \<and> deserialize test_lib (serialize test_lib pending_wallet) = Inr pending_wallet
   \<and> s_privateKey (serialize test_lib pending_wallet) = test_key_hex
   \<and> s_addressString (serialize test_lib pending_wallet) = test_address
   \<and> isValidPrivate test_lib (etherWallet inconsistent_wallet)
   \<and> (\<exists>w'. deserialize test_lib (serialize test_lib inconsistent_wallet) = Inr w'
          \<and> addressString w' = test_address \<and> balance w' = JStr ''1000000''
          \<and> addressString w' \<noteq> addressString inconsistent_wallet)"
proof -
  have "deserialize test_lib (serialize test_lib pending_wallet) = Inr pending_wallet"
    using serialize_deserialize [OF pending_wallet_valid(1)] pending_wallet_valid(2) by auto
  moreover have "s_privateKey (serialize test_lib pending_wallet) = test_key_hex"
    "s_addressString (serialize test_lib pending_wallet) = test_address"
    "length (historyTxs pending_wallet) = 3"
    by (simp_all add: serialize_def pending_wallet_def test_wallet_def test_lib_address
          test_key_string)
  moreover have "\<exists>w'. deserialize test_lib (serialize test_lib inconsistent_wallet) = Inr w'
          \<and> addressString w' = test_address \<and> balance w' = JStr ''1000000''
          \<and> addressString w' \<noteq> addressString inconsistent_wallet"
  proof -
    have "addressString inconsistent_wallet \<noteq> test_address"
      "balance inconsistent_wallet = JStr ''1000000''"
      by (simp_all add: inconsistent_wallet_def)
    with serialize_deserialize [OF inconsistent_wallet_key(1)] inconsistent_wallet_key(2)
    show ?thesis by auto
  qed
  ultimately show ?thesis
    using pending_wallet_valid inconsistent_wallet_key(1) by simp
qed

text \<open>
  C8, as stated, has every wallet restored by \<open>deserialize\<close> store the address of its
  key. \<open>deserialize\<close> takes the key from \<open>privateKey\<close> and copies \<open>addressString\<close> from
  the record without comparing the two: from a record with the private key \<open>1\<close>
  (\<open>test_key_hex\<close>) and the address \<open>0xff...ff\<close> (\<open>wrong_address\<close>) it builds a wallet
  whose stored address is \<open>0xff...ff\<close>, which is not the address of its key. That the
  stored address is the one of the record holds for every library (\<open>deserialize_fields\<close>).
\<close>

theorem deserialize_address_counterexample:
  "deserialize test_lib inconsistent_record =
     Inr \<lparr>networkName = JStr ''ethereum'', balance = JStr ''1000000'',
          confirmedBalance = JStr ''1000000'', historyTxs = [], txsCount = 7,
          etherWallet = test_key, addressString = wrong_address,
          gasPrice = JStr ''2'', gasLimit = JStr ''21000'', minConf = 5\<rparr>
   \<and> getAddressString test_lib test_key = test_address
   \<and> wrong_address \<noteq> test_address"
  by (simp add: deserialize_def inconsistent_record_def createPrivateKey_test_key
        fromPrivateKey_def test_lib_address)

text \<open>
  C8, amended. Every wallet reported by the constructor (and the object it returns, at
  any moment from its return on), or restored by \<open>deserialize\<close> from a record written
  by \<open>serialize\<close> (or from any record whose \<open>addressString\<close> is the address of its
  \<open>privateKey\<close>), stores the address of its key; \<open>processTx\<close> and \<open>sendTx\<close> keep the key
  and the address, so every wallet reached through them does too.
\<close>

theorem reachable_address:
  assumes "reachable L w"
  shows "addressString w = getAddressString L (etherWallet w)
         \<and> (\<forall>R txId res w'. processTx R w txId = (res, w') \<longrightarrow>
               etherWallet w' = etherWallet w
               \<and> addressString w' = getAddressString L (etherWallet w'))
         \<and> (\<forall>R tx res w'. sendTx R L w tx = (res, w') \<longrightarrow>
               etherWallet w' = etherWallet w
               \<and> addressString w' = getAddressString L (etherWallet w'))"
proof -
  have inv: "addressString w = getAddressString L (etherWallet w)"
    using assms
  proof (induction rule: reachable.induct)
    case (constructed R sched opts w)
    then show ?case by (rule Wallet_identity)
  next
    case (returned_object R sched opts w)
    then show ?case by (rule Wallet_returned_identity)
  next
    case (settled_object R sched opts w)
    then show ?case by (rule Wallet_settled_identity)
  next
    case (reloaded w0 w)
    then have "isValidPrivate L (etherWallet w0)"
      by (rule deserialize_serialize_valid)
    then have "deserialize L (serialize L w0) =
               Inr (w0\<lparr>addressString := getAddressString L (etherWallet w0)\<rparr>)"
      by (rule deserialize_serialize)
    with reloaded show ?case by auto
  next
    case (restored r w k)
    from restored(1) have "createPrivateKey L (s_privateKey r) = Inr (etherWallet w)"
      and "addressString w = s_addressString r"
      by (rule deserialize_fields)+
    with restored(2,3) show ?case by (simp add: fromPrivateKey_def)
  next
    case (recorded w R txId res w')
    then show ?case using processTx_identity [of R w txId res w'] by simp
  next
    case (sent w R tx res w')
    then show ?case using sendTx_identity [of R L w tx res w'] by simp
  qed
  show ?thesis
    using inv by (auto dest: processTx_identity sendTx_identity)
qed

theorem reachable_address_witness:
  "reachable test_lib constructed_wallet
   \<and> addressString constructed_wallet = getAddressString test_lib (etherWallet constructed_wallet)
   \<and> getAddressString test_lib (etherWallet constructed_wallet) = test_address"
proof -
  have "addressString constructed_wallet = getAddressString test_lib (etherWallet constructed_wallet)"
    using reachable_address [OF reachable_constructed_wallet] by blast
  then show ?thesis
    using reachable_constructed_wallet by (simp add: constructed_wallet_def)
qed

end
